theory Spec2Isabelle
  imports Complex_Main "HOL-Library.AList"
begin

section \<open>JavaScript values used by the request engine\<close>

text \<open>
  A JavaScript string is represented by the bytes of its UTF-8 encoding, as an Isabelle
  \<open>string\<close>; a property that may be \<open>undefined\<close> is an \<open>option\<close>. A number is
  a double: not-a-number, an infinity or a finite value, whose exact value is a rational
  (the two zeros are one value here; both are falsy).
\<close>

datatype jsnumber = NaN | PosInfinity | NegInfinity | Finite rat

definition truthy_number :: "jsnumber \<Rightarrow> bool" where
  "truthy_number n = (n \<noteq> NaN \<and> n \<noteq> Finite 0)"

definition truthy_string :: "string \<Rightarrow> bool" where
  "truthy_string s = (s \<noteq> [])"

section \<open>Listeners: the port handed to \<open>server.listen\<close>\<close>

text \<open>
  \<open>listeners.ts\<close>, the end of the \<open>ListenerBase\<close> constructor. The first argument of
  \<open>server.listen\<close> is \<open>undefined\<close> (the operating system chooses the port) or a number.
  The unary plus of the source is the language's string-to-number conversion; it is the
  argument \<open>toNumber\<close>.
\<close>

datatype listen_port = OS_chosen | Port jsnumber

definition ListenerBase_listen :: "(string \<Rightarrow> jsnumber) \<Rightarrow> string option \<Rightarrow> listen_port" where
  "ListenerBase_listen toNumber port =
     (if port = Some ''0'' then OS_chosen
      else (case port of
              None \<Rightarrow> Port (Finite 8080)
            | Some p \<Rightarrow>
                if truthy_string p \<and> truthy_number (toNumber p) then Port (toNumber p)
                else Port (Finite 8080)))"

text \<open>
  \<open>index.ts\<close>, \<open>startListening\<close>: the port of \<open>options2\<close> is
  \<open>e.port ?? process.env.PORT ?? "8080"\<close>, and the listener is constructed from it.
\<close>

definition options2_port :: "string option \<Rightarrow> string option \<Rightarrow> string" where
  "options2_port e_port env_PORT =
     (case e_port of
        Some p \<Rightarrow> p
      | None \<Rightarrow> (case env_PORT of Some p \<Rightarrow> p | None \<Rightarrow> ''8080''))"

definition startListening_port ::
  "(string \<Rightarrow> jsnumber) \<Rightarrow> string option \<Rightarrow> string option \<Rightarrow> listen_port" where
  "startListening_port toNumber env_PORT e_port =
     ListenerBase_listen toNumber (Some (options2_port e_port env_PORT))"

text \<open>
  The conversion on a non-empty string of decimal digits, for the closed examples: the
  number the digits spell. The language's conversion also reads signs, fractions,
  exponents, radix prefixes and surrounding white space, which is why the definitions
  above take the conversion as an argument; on every other string this function
  answers not-a-number.
\<close>

definition digit_value :: "char \<Rightarrow> nat" where
  "digit_value c = of_char c - 48"

definition is_digit :: "char \<Rightarrow> bool" where
  "is_digit c = (48 \<le> (of_char c :: nat) \<and> (of_char c :: nat) \<le> 57)"

definition digits_number :: "string \<Rightarrow> jsnumber" where
  "digits_number s =
     (if s \<noteq> [] \<and> list_all is_digit s
      then Finite (of_nat (foldl (\<lambda>acc c. 10 * acc + digit_value c) 0 s))
      else NaN)"

section \<open>Strings\<close>

definition startsWith :: "string \<Rightarrow> string \<Rightarrow> bool" where
  "startsWith s p = (take (length p) s = p)"

definition slice_from :: "string \<Rightarrow> nat \<Rightarrow> string" where
  "slice_from s n = drop n s"

definition newline :: char where
  "newline = CHR 0x0A"

definition includes_newline :: "string \<Rightarrow> bool" where
  "includes_newline s = (newline \<in> set s)"

fun join :: "string \<Rightarrow> string list \<Rightarrow> string" where
  "join sep [] = []"
| "join sep [x] = x"
| "join sep (x # y # ys) = x @ sep @ join sep (y # ys)"

text \<open>\<open>s.split(c)\<close> for a one-character separator: never empty, \<open>"".split(c)\<close> is \<open>[""]\<close>.\<close>

fun split :: "char \<Rightarrow> string \<Rightarrow> string list" where
  "split c [] = [[]]"
| "split c (x # xs) =
     (if x = c then [] # split c xs
      else (case split c xs of
              [] \<Rightarrow> [[x]]
            | w # ws \<Rightarrow> (x # w) # ws))"

definition toLowerCase_char :: "char \<Rightarrow> char" where
  "toLowerCase_char c =
     (if 65 \<le> (of_char c :: nat) \<and> (of_char c :: nat) \<le> 90
      then char_of ((of_char c :: nat) + 32) else c)"

text \<open>Header names are ASCII; on them \<open>toLowerCase\<close> changes the letters A to Z only.\<close>

definition toLowerCase :: "string \<Rightarrow> string" where
  "toLowerCase s = map toLowerCase_char s"

function string_of_nat :: "nat \<Rightarrow> string" where
  "string_of_nat n =
     (if n < 10 then [char_of (48 + n)]
      else string_of_nat (n div 10) @ [char_of (48 + n mod 10)])"
  by pat_completeness auto
termination
  by (relation "measure id") auto

declare string_of_nat.simps [simp del]

text \<open>
  An integer-valued number in a template literal. (The language prints numbers from
  \<open>10\<^sup>2\<^sup>1\<close> on with an exponent; the numbers of this development are far below.)
\<close>

definition string_of_int :: "int \<Rightarrow> string" where
  "string_of_int i =
     (if i < 0 then CHR ''-'' # string_of_nat (nat (- i)) else string_of_nat (nat i))"

subsection \<open>White space and \<open>trim\<close>\<close>

text \<open>
  The code points \<open>trim\<close> removes, in UTF-8: tab, line feed, vertical tab, form feed,
  carriage return, space, U+00A0, U+1680, U+2000 to U+200A, U+2028, U+2029, U+202F,
  U+205F, U+3000 and U+FEFF.
\<close>

definition whitespace_sequences :: "string list" where
  "whitespace_sequences =
     [[CHR 0x09], [CHR 0x0A], [CHR 0x0B], [CHR 0x0C], [CHR 0x0D], [CHR 0x20],
      [CHR 0xC2, CHR 0xA0],
      [CHR 0xE1, CHR 0x9A, CHR 0x80],
      [CHR 0xE2, CHR 0x80, CHR 0x80], [CHR 0xE2, CHR 0x80, CHR 0x81],
      [CHR 0xE2, CHR 0x80, CHR 0x82], [CHR 0xE2, CHR 0x80, CHR 0x83],
      [CHR 0xE2, CHR 0x80, CHR 0x84], [CHR 0xE2, CHR 0x80, CHR 0x85],
      [CHR 0xE2, CHR 0x80, CHR 0x86], [CHR 0xE2, CHR 0x80, CHR 0x87],
      [CHR 0xE2, CHR 0x80, CHR 0x88], [CHR 0xE2, CHR 0x80, CHR 0x89],
      [CHR 0xE2, CHR 0x80, CHR 0x8A],
      [CHR 0xE2, CHR 0x80, CHR 0xA8], [CHR 0xE2, CHR 0x80, CHR 0xA9],
      [CHR 0xE2, CHR 0x80, CHR 0xAF],
      [CHR 0xE2, CHR 0x81, CHR 0x9F],
      [CHR 0xE3, CHR 0x80, CHR 0x80],
      [CHR 0xEF, CHR 0xBB, CHR 0xBF]]"

text \<open>The number of bytes of the white-space code point a string starts with, or 0.\<close>

definition leading_whitespace :: "string \<Rightarrow> nat" where
  "leading_whitespace s =
     (case find (\<lambda>w. startsWith s w) whitespace_sequences of
        None \<Rightarrow> 0
      | Some w \<Rightarrow> length w)"

definition trailing_whitespace :: "string \<Rightarrow> nat" where
  "trailing_whitespace s =
     (case find (\<lambda>w. startsWith (rev s) (rev w)) whitespace_sequences of
        None \<Rightarrow> 0
      | Some w \<Rightarrow> length w)"

lemma leading_whitespace_Nil: "leading_whitespace [] = 0"
  by (simp add: leading_whitespace_def whitespace_sequences_def startsWith_def)

lemma trailing_whitespace_Nil: "trailing_whitespace [] = 0"
  by (simp add: trailing_whitespace_def whitespace_sequences_def startsWith_def)

function trimStart :: "string \<Rightarrow> string" where
  "trimStart s =
     (if leading_whitespace s = 0 then s else trimStart (drop (leading_whitespace s) s))"
  by pat_completeness auto
termination
proof (relation "measure length")
  show "wf (measure length)" by simp
next
  fix s :: string
  assume "leading_whitespace s \<noteq> 0"
  then have "s \<noteq> []" using leading_whitespace_Nil by auto
  with \<open>leading_whitespace s \<noteq> 0\<close>
  show "(drop (leading_whitespace s) s, s) \<in> measure length" by simp
qed

function trimEnd :: "string \<Rightarrow> string" where
  "trimEnd s =
     (if trailing_whitespace s = 0 then s
      else trimEnd (take (length s - trailing_whitespace s) s))"
  by pat_completeness auto
termination
proof (relation "measure length")
  show "wf (measure length)" by simp
next
  fix s :: string
  assume "trailing_whitespace s \<noteq> 0"
  then have "s \<noteq> []" using trailing_whitespace_Nil by auto
  with \<open>trailing_whitespace s \<noteq> 0\<close>
  show "(take (length s - trailing_whitespace s) s, s) \<in> measure length" by simp
qed

declare trimStart.simps [simp del] trimEnd.simps [simp del]

definition trim :: "string \<Rightarrow> string" where
  "trim s = trimEnd (trimStart s)"

subsection \<open>\<open>decodeURIComponent\<close> and \<open>encodeURIComponent\<close>\<close>

definition hex_value :: "char \<Rightarrow> nat option" where
  "hex_value c =
     (let n = (of_char c :: nat) in
      if 48 \<le> n \<and> n \<le> 57 then Some (n - 48)
      else if 65 \<le> n \<and> n \<le> 70 then Some (n - 55)
      else if 97 \<le> n \<and> n \<le> 102 then Some (n - 87)
      else None)"

text \<open>
  The first pass reads the escapes: every \<open>%\<close> must be followed by two hexadecimal
  digits. A result element is a byte and whether it was written as an escape.
\<close>

fun unescape :: "string \<Rightarrow> (bool \<times> nat) list option" where
  "unescape [] = Some []"
| "unescape (c # s) =
     (if c = CHR ''%'' then
        (case s of
           a # b # rest \<Rightarrow>
             (case (hex_value a, hex_value b) of
                (Some h, Some l) \<Rightarrow> map_option ((#) (True, 16 * h + l)) (unescape rest)
              | _ \<Rightarrow> None)
         | _ \<Rightarrow> None)
      else map_option ((#) (False, of_char c)) (unescape s))"

text \<open>The length of the UTF-8 sequence that a leading byte announces.\<close>

definition utf8_sequence_length :: "nat \<Rightarrow> nat option" where
  "utf8_sequence_length b =
     (if b < 128 then Some 1
      else if b < 192 then None
      else if b < 224 then Some 2
      else if b < 240 then Some 3
      else if b < 248 then Some 4
      else None)"

text \<open>
  A sequence of two to four bytes is the UTF-8 encoding of a code point: continuation
  bytes in range, no overlong form, no surrogate, nothing above U+10FFFF.
\<close>

definition is_continuation :: "nat \<Rightarrow> bool" where
  "is_continuation b = (128 \<le> b \<and> b < 192)"

fun valid_utf8_sequence :: "nat list \<Rightarrow> bool" where
  "valid_utf8_sequence [b0, b1] = (194 \<le> b0 \<and> b0 < 224 \<and> is_continuation b1)"
| "valid_utf8_sequence [b0, b1, b2] =
     (224 \<le> b0 \<and> b0 < 240 \<and> is_continuation b1 \<and> is_continuation b2
      \<and> (b0 = 224 \<longrightarrow> 160 \<le> b1) \<and> (b0 = 237 \<longrightarrow> b1 < 160))"
| "valid_utf8_sequence [b0, b1, b2, b3] =
     (240 \<le> b0 \<and> b0 < 245 \<and> is_continuation b1 \<and> is_continuation b2 \<and> is_continuation b3
      \<and> (b0 = 240 \<longrightarrow> 144 \<le> b1) \<and> (b0 = 244 \<longrightarrow> b1 < 144))"
| "valid_utf8_sequence _ = False"

text \<open>
  The second pass: a character that was not escaped stands for itself; an escaped byte
  below 128 is that character; any other escaped byte must start a UTF-8 sequence whose
  remaining bytes are escapes as well.
\<close>

fun decode_bytes :: "(bool \<times> nat) list \<Rightarrow> string option" where
  "decode_bytes [] = Some []"
| "decode_bytes ((escaped, b) # ts) =
     (if \<not> escaped \<or> b < 128 then map_option ((#) (char_of b)) (decode_bytes ts)
      else (case utf8_sequence_length b of
              None \<Rightarrow> None
            | Some n \<Rightarrow>
                if length ts < n - 1 then None
                else if \<not> list_all fst (take (n - 1) ts) then None
                else if \<not> valid_utf8_sequence (b # map snd (take (n - 1) ts)) then None
                else map_option ((@) (map char_of (b # map snd (take (n - 1) ts))))
                       (decode_bytes (drop (n - 1) ts))))"

text \<open>\<open>None\<close> is the \<open>URIError\<close> the function throws on a malformed sequence.\<close>

definition decodeURIComponent :: "string \<Rightarrow> string option" where
  "decodeURIComponent s =
     (case unescape s of None \<Rightarrow> None | Some ts \<Rightarrow> decode_bytes ts)"

definition uri_unreserved :: "char \<Rightarrow> bool" where
  "uri_unreserved c =
     (let n = (of_char c :: nat) in
      (48 \<le> n \<and> n \<le> 57) \<or> (65 \<le> n \<and> n \<le> 90) \<or> (97 \<le> n \<and> n \<le> 122)
      \<or> c \<in> set ''-_.!~*'()'')"

definition hex_digit :: "nat \<Rightarrow> char" where
  "hex_digit n = (if n < 10 then char_of (48 + n) else char_of (55 + n))"

definition percent_encode :: "char \<Rightarrow> string" where
  "percent_encode c =
     [CHR ''%'', hex_digit ((of_char c :: nat) div 16), hex_digit ((of_char c :: nat) mod 16)]"

text \<open>
  Every byte of the UTF-8 encoding that is not an unreserved character becomes an escape
  with upper-case digits. (A lone surrogate, on which the function throws, is not a string
  of this representation.)
\<close>

definition encodeURIComponent :: "string \<Rightarrow> string" where
  "encodeURIComponent s = concat (map (\<lambda>c. if uri_unreserved c then [c] else percent_encode c) s)"

section \<open>Thrown values and results\<close>

text \<open>
  What the engine throws: plain errors with their message, the errors of the platform,
  the engine's \<open>SendError\<close> (reason and status; the details are \<open>null\<close> wherever
  this development constructs one) and the sentinel \<open>STREAM_ENDED\<close>. A call either
  throws or returns, and leaves a state behind in both cases.
\<close>

datatype sentinel = STREAM_ENDED

datatype exception =
    Error string
  | URIError
  | TypeError string
  | ERR_HTTP_HEADERS_SENT string
  | ERR_HTTP_INVALID_HEADER_VALUE string
  | SendError string nat
  | Sentinel sentinel

datatype ('a, 's) outcome = Throws exception 's | Returns 'a 's

section \<open>The response object of the platform\<close>

text \<open>
  The engine writes through Node's \<open>ServerResponse\<close> (or its HTTP/2 counterpart). Its
  part in this development is small and fixed by the platform's documentation: \<open>setHeader\<close> and
  \<open>writeHead\<close> throw once the headers are sent and refuse an \<open>undefined\<close> value;
  \<open>writeHead\<close> merges its headers into the stored ones and sends the block;
  \<open>write\<close> and \<open>end\<close> send the stored headers first if nothing sent them before; after
  \<open>end\<close> nothing more is written, and a late \<open>write\<close> is reported through the error
  event, not by throwing. The wire is the list of header blocks and the list of body
  chunks sent. Status codes, header names and header values are taken to be well-formed
  (the platform refuses a status outside 100 to 999, a name that is not a token and a value
  with control characters).
\<close>

datatype hval = HUndefined | HNumber int | HString string | HArray "string list"

datatype BufferEncoding =
  ascii | utf8 | utf16le | ucs2 | base64 | base64url | latin1 | binary | hex

record ServerResponse =
  headersSent :: bool
  statusCode :: nat
  outHeaders :: "(string \<times> hval) list"
  wireHeads :: "(nat \<times> (string \<times> hval) list) list"
  wireBody :: "(string \<times> BufferEncoding) list"
  writableEnded :: bool

definition fresh_response :: ServerResponse where
  "fresh_response =
     \<lparr>headersSent = False, statusCode = 200, outHeaders = [], wireHeads = [],
      wireBody = [], writableEnded = False\<rparr>"

definition res_getHeader :: "string \<Rightarrow> ServerResponse \<Rightarrow> hval option" where
  "res_getHeader name r = map_of (outHeaders r) (toLowerCase name)"

definition res_setHeader :: "string \<Rightarrow> hval \<Rightarrow> ServerResponse \<Rightarrow> (unit, ServerResponse) outcome" where
  "res_setHeader name v r =
     (if headersSent r then Throws (ERR_HTTP_HEADERS_SENT ''set'') r
      else if v = HUndefined then Throws (ERR_HTTP_INVALID_HEADER_VALUE name) r
      else Returns () (r\<lparr>outHeaders := AList.update (toLowerCase name) v (outHeaders r)\<rparr>))"

fun res_setHeaders :: "(string \<times> hval) list \<Rightarrow> ServerResponse \<Rightarrow> (unit, ServerResponse) outcome" where
  "res_setHeaders [] r = Returns () r"
| "res_setHeaders ((k, v) # hs) r =
     (if k = [] then res_setHeaders hs r
      else (case res_setHeader k v r of
              Throws e r' \<Rightarrow> Throws e r'
            | Returns _ r' \<Rightarrow> res_setHeaders hs r'))"

definition res_writeHead ::
  "nat \<Rightarrow> (string \<times> hval) list \<Rightarrow> ServerResponse \<Rightarrow> (unit, ServerResponse) outcome" where
  "res_writeHead status hs r =
     (if headersSent r then Throws (ERR_HTTP_HEADERS_SENT ''write'') r
      else (case res_setHeaders hs r of
              Throws e r' \<Rightarrow> Throws e r'
            | Returns _ r' \<Rightarrow>
                Returns () (r'\<lparr>headersSent := True, statusCode := status,
                                wireHeads := wireHeads r' @ [(status, outHeaders r')]\<rparr>)))"

definition res_implicitHeader :: "ServerResponse \<Rightarrow> ServerResponse" where
  "res_implicitHeader r =
     (if headersSent r then r
      else r\<lparr>headersSent := True,
              wireHeads := wireHeads r @ [(statusCode r, outHeaders r)]\<rparr>)"

definition res_write :: "string \<Rightarrow> BufferEncoding \<Rightarrow> ServerResponse \<Rightarrow> ServerResponse" where
  "res_write chunk encoding r =
     (if writableEnded r then r
      else (let r' = res_implicitHeader r in r'\<lparr>wireBody := wireBody r' @ [(chunk, encoding)]\<rparr>))"

definition res_end :: "(string \<times> BufferEncoding) option \<Rightarrow> ServerResponse \<Rightarrow> ServerResponse" where
  "res_end final r =
     (if writableEnded r then r
      else (let r' = res_implicitHeader r in
            r'\<lparr>wireBody := wireBody r' @ (case final of None \<Rightarrow> [] | Some c \<Rightarrow> [c]),
               writableEnded := True\<rparr>))"

section \<open>Parsing a request (\<open>Streamer.parseRequest\<close>)\<close>

text \<open>
  What \<open>parseRequest\<close> reads of the platform's request object: the raw URL, the major
  protocol version, the headers (lower-case names) and the method.
\<close>

record GenericRequest =
  req_url :: string
  httpVersionMajor :: nat
  req_headers :: "string \<Rightarrow> string option"
  req_method :: "string option"

text \<open>
  The object \<open>parseRequest\<close> returns; \<open>'u\<close> is the platform's parsed \<open>URL\<close>. The
  field \<open>method\<close> of the source is \<open>the_method\<close> here, the name being a keyword.
  (The request object itself, which the source also returns, is left out: its body stream
  plays no part here.)
\<close>

record 'u ParsedRequest =
  res :: ServerResponse
  url :: string
  urlInfo :: 'u
  pathPrefix :: string
  expectSecure :: bool
  the_method :: string
  host :: string
  cookies :: "(string \<times> string) list"
  headers :: "string \<Rightarrow> string option"

text \<open>
  \<open>parseCookieString\<close>: the pairs appended to the \<open>URLSearchParams\<close>, in order. A value
  that \<open>decodeURIComponent\<close> rejects makes the whole call throw.
\<close>

fun parseCookies :: "string list \<Rightarrow> (string \<times> string) list option" where
  "parseCookies [] = Some []"
| "parseCookies (cookie # rest) =
     (let parts = split CHR ''='' cookie in
      if length parts \<ge> 2 then
        (let key = trim (hd parts);
             val = trim (join ''='' (tl parts))
         in case decodeURIComponent val of
              None \<Rightarrow> None
            | Some v \<Rightarrow> map_option ((#) (key, v)) (parseCookies rest))
      else parseCookies rest)"

definition parseCookieString :: "string \<Rightarrow> exception + (string \<times> string) list" where
  "parseCookieString cookieString =
     (case parseCookies (split CHR '';'' cookieString) of
        None \<Rightarrow> Inl URIError
      | Some cs \<Rightarrow> Inr cs)"

text \<open>
  Modelled from the spec: \<open>is\<close>, the type-narrowing helper of the engine's \<open>utils\<close>
  module, which is not among the sources. It narrows the type of its first argument and
  answers its second; the spec's "pseudo-headers are translated to their HTTP/1
  equivalents" is the branch it guards.
\<close>

definition is_narrowed :: "'a \<Rightarrow> bool \<Rightarrow> bool" where
  "is_narrowed a b = b"

definition outside_prefix_message :: "string \<Rightarrow> string" where
  "outside_prefix_message prefix =
     ''The server is setup with a path prefix '' @ prefix
       @ '', but this request is outside of that prefix.''"

text \<open>
  The second half of \<open>parseRequest\<close> (from the HTTP/2 host onwards), with the URL after
  the prefix step. \<open>new_URL\<close> is the platform's URL constructor, \<open>None\<close> when it throws.
\<close>

definition parseRequest_state ::
  "(string \<Rightarrow> 'u option) \<Rightarrow> GenericRequest \<Rightarrow> ServerResponse \<Rightarrow> string \<Rightarrow> bool \<Rightarrow> string
     \<Rightarrow> ('u ParsedRequest, ServerResponse) outcome" where
  "parseRequest_state new_URL req res0 prefix secure url' =
     (let hdrs = (if is_narrowed req (httpVersionMajor req > 1)
                  then (req_headers req)(''host'' := req_headers req '':authority'')
                  else req_headers req)
      in case hdrs ''host'' of
           None \<Rightarrow> Throws (Error ''This should never happen'') res0
         | Some h \<Rightarrow>
             if \<not> truthy_string h then Throws (Error ''This should never happen'') res0
             else (case req_method req of
                     None \<Rightarrow> Throws (Error ''This should never happen'') res0
                   | Some m \<Rightarrow>
                       if \<not> truthy_string m then Throws (Error ''This should never happen'') res0
                       else (case parseCookieString (case hdrs ''cookie'' of None \<Rightarrow> [] | Some c \<Rightarrow> c) of
                               Inl e \<Rightarrow> Throws e res0
                             | Inr cs \<Rightarrow>
                                 (case new_URL (''https://'' @ h @ url') of
                                    None \<Rightarrow> Throws (TypeError ''Invalid URL'') res0
                                  | Some u \<Rightarrow>
                                      Returns \<lparr>res = res0, url = url', urlInfo = u,
                                               pathPrefix = prefix, expectSecure = secure,
                                               the_method = m, host = h, cookies = cs,
                                               headers = hdrs\<rparr> res0))))"

definition parseRequest ::
  "(string \<Rightarrow> 'u option) \<Rightarrow> GenericRequest \<Rightarrow> ServerResponse \<Rightarrow> string \<Rightarrow> bool
     \<Rightarrow> ('u ParsedRequest, ServerResponse) outcome" where
  "parseRequest new_URL req res0 prefix secure =
     (if \<not> startsWith (req_url req) ''/'' then Throws (Error ''This should never happen'') res0
      else if truthy_string prefix then
        (if req_url req = prefix then
           (case res_writeHead 302 [(''location'', HString (req_url req @ ''/''))] res0 of
              Throws e r \<Rightarrow> Throws e r
            | Returns _ r \<Rightarrow> Throws (Sentinel STREAM_ENDED) (res_end None r))
         else if startsWith (req_url req) prefix then
           parseRequest_state new_URL req res0 prefix secure
             (slice_from (req_url req) (length prefix))
         else
           (case res_writeHead 500 [] res0 of
              Throws e r \<Rightarrow> Throws e r
            | Returns _ r \<Rightarrow>
                Throws (Sentinel STREAM_ENDED)
                  (res_end (Some (outside_prefix_message prefix, utf8)) r)))
      else parseRequest_state new_URL req res0 prefix secure (req_url req))"

section \<open>The request state (\<open>Streamer\<close>)\<close>

text \<open>
  Modelled from the spec: \<open>RouteMatch\<close>, declared in the router module, which is not
  among the sources: "a pairing of a route node with the named captures it contributed
  during matching". The captures are the \<open>groups\<close> object of the regular-expression
  match: its entries in order, a group that took no part in the match being
  \<open>undefined\<close>.
\<close>

record 'n RouteMatch =
  route :: 'n
  groups :: "(string \<times> string option) list"

text \<open>An \<open>Error\<close> object kept for its stack: the message and the place it was made.\<close>

datatype stack_error = ErrorAt string string

datatype log_entry = LogError stack_error | LogText string

text \<open>
  The fields of a \<open>Streamer\<close> that the properties below read. The constructor copies the parsed
  request; \<open>headersSentBy\<close> starts \<open>undefined\<close>. The console is the list of lines
  printed by \<open>console.log\<close>. (The compressor is never constructed in the source, so
  \<open>this.compressor?.\<close> does nothing and the writer is the response itself. The trace lines
  of the \<open>send\<close> debug flag go to the error stream and are left out.)
\<close>

record 'u Streamer = "'u ParsedRequest" +
  pathParams :: "(string \<times> string option) list"
  headersSentBy :: "stack_error option"
  console :: "log_entry list"

subsection \<open>The constructor: path parameters\<close>

text \<open>
  \<open>Object.assign(n, g)\<close> on a target that began as \<open>{}\<close>: every own property of
  \<open>g\<close> is set on \<open>n\<close>, in order. The property \<open>__proto__\<close> is the exception: on an
  ordinary object the assignment goes to the setter that \<open>Object.prototype\<close> has for
  that name, which does nothing with a value that is neither an object nor \<open>null\<close>, so
  no property is created and the value is lost.
\<close>

definition Object_assign ::
  "(string \<times> 'v) list \<Rightarrow> (string \<times> 'v) list \<Rightarrow> (string \<times> 'v) list" where
  "Object_assign n g =
     fold (\<lambda>(k, v) m. if k = ''__proto__'' then m else AList.update k v m) g n"

text \<open>\<open>routePath.reduce((n, e) => Object.assign(n, e.groups), {})\<close>\<close>

definition merged_groups :: "'n RouteMatch list \<Rightarrow> (string \<times> string option) list" where
  "merged_groups routePath = foldl (\<lambda>n e. Object_assign n (groups e)) [] routePath"

text \<open>
  \<open>zodDecodeURIComponent\<close>, the transform of the engine's \<open>utils\<close> module, is not
  among the sources, and nothing says what it does with a string that
  \<open>decodeURIComponent\<close> rejects. It is a parameter of the constructor here. A transform
  of a schema returns a value, reports an issue to the schema, or throws.
\<close>

datatype zod_transformed = Transformed string | Issue | Raises exception

text \<open>What \<open>safeParse\<close> comes to: it throws what a transform throws, or returns a result.\<close>

datatype 'a safeParse = Raised exception | Failure | Success 'a

text \<open>
  \<open>zod.record(zod.string(), zod.string().transform(zodDecodeURIComponent).optional())
  .safeParse\<close>: the values are parsed in the order of the properties; an \<open>undefined\<close>
  value passes as it is, a string passes through the transform. The parse succeeds with
  the transformed data when no transform reported an issue.
\<close>

fun pathParamsZodCheck ::
  "(string \<Rightarrow> zod_transformed) \<Rightarrow> (string \<times> string option) list
     \<Rightarrow> (string \<times> string option) list safeParse" where
  "pathParamsZodCheck zodDecodeURIComponent [] = Success []"
| "pathParamsZodCheck zodDecodeURIComponent ((k, None) # ps) =
     (case pathParamsZodCheck zodDecodeURIComponent ps of
        Success data \<Rightarrow> Success ((k, None) # data)
      | Failure \<Rightarrow> Failure
      | Raised e \<Rightarrow> Raised e)"
| "pathParamsZodCheck zodDecodeURIComponent ((k, Some v) # ps) =
     (case zodDecodeURIComponent v of
        Raises e \<Rightarrow> Raised e
      | Issue \<Rightarrow>
          (case pathParamsZodCheck zodDecodeURIComponent ps of
             Raised e \<Rightarrow> Raised e
           | _ \<Rightarrow> Failure)
      | Transformed d \<Rightarrow>
          (case pathParamsZodCheck zodDecodeURIComponent ps of
             Success data \<Rightarrow> Success ((k, Some d) # data)
           | Failure \<Rightarrow> Failure
           | Raised e \<Rightarrow> Raised e))"

text \<open>
  The constructor: it throws what \<open>safeParse\<close> throws; when the parse fails it prints the
  line that begins \<open>BUG: Path params zod error\<close> and leaves the merged captures in
  \<open>pathParams\<close>; when the parse succeeds \<open>pathParams\<close> is the parsed data.
\<close>

definition new_Streamer ::
  "(string \<Rightarrow> zod_transformed) \<Rightarrow> 'u ParsedRequest \<Rightarrow> 'n RouteMatch list
     \<Rightarrow> exception + 'u Streamer" where
  "new_Streamer zodDecodeURIComponent request routePath =
     (let merged = merged_groups routePath in
      case pathParamsZodCheck zodDecodeURIComponent merged of
        Raised e \<Rightarrow> Inl e
      | Failure \<Rightarrow>
          Inr (ParsedRequest.extend request
            \<lparr>pathParams = merged, headersSentBy = None,
             console = [LogText ''BUG: Path params zod error'']\<rparr>)
      | Success data \<Rightarrow>
          Inr (ParsedRequest.extend request
            \<lparr>pathParams = data, headersSentBy = None, console = []\<rparr>))"




subsection \<open>Header discipline\<close>

definition culprit_message :: string where
  "culprit_message = ''Possible culprit was given access to the response object here.''"

definition second_attempt_message :: string where
  "second_attempt_message =
     ''This is the second attempt to send headers. Was it supposed to happen?''"

definition first_attempt_message :: string where
  "first_attempt_message =
     ''You appear to be sending headers more than once. The first attempt was here. Does it need to throw or return?''"

text \<open>The getter \<open>writer\<close>; \<open>site\<close> is the place of the call, which a new \<open>Error\<close> records.\<close>

definition writer :: "string \<Rightarrow> 'u Streamer \<Rightarrow> 'u Streamer" where
  "writer site s =
     (if \<not> headersSent (res s) \<and> headersSentBy s = None
      then s\<lparr>headersSentBy := Some (ErrorAt culprit_message site)\<rparr>
      else s)"

definition checkHeadersSentBy :: "string \<Rightarrow> 'u Streamer \<Rightarrow> 'u Streamer" where
  "checkHeadersSentBy site s =
     (case (headersSent (res s), headersSentBy s) of
        (True, Some first) \<Rightarrow>
          s\<lparr>console := console s @ [LogError first, LogError (ErrorAt second_attempt_message site)]\<rparr>
      | (True, None) \<Rightarrow>
          s\<lparr>console := console s @ [LogText ''Headers were sent by an unknown source.'']\<rparr>
      | (False, _) \<Rightarrow>
          s\<lparr>headersSentBy := Some (ErrorAt first_attempt_message site)\<rparr>)"

text \<open>A header value inside a template literal.\<close>

fun template_literal :: "hval \<Rightarrow> string" where
  "template_literal HUndefined = ''undefined''"
| "template_literal (HNumber n) = string_of_int n"
| "template_literal (HString v) = v"
| "template_literal (HArray vs) = join '','' vs"

definition setHeader :: "string \<Rightarrow> string \<Rightarrow> 'u Streamer \<Rightarrow> (unit, 'u Streamer) outcome" where
  "setHeader name v s =
     (case res_setHeader name (HString v) (res s) of
        Throws e r \<Rightarrow> Throws e (s\<lparr>res := r\<rparr>)
      | Returns _ r \<Rightarrow> Returns () (s\<lparr>res := r\<rparr>))"

text \<open>The loop of \<open>writeHead\<close> over the entries of its headers.\<close>

fun setHeader_entries :: "(string \<times> hval) list \<Rightarrow> 'u Streamer \<Rightarrow> (unit, 'u Streamer) outcome" where
  "setHeader_entries [] s = Returns () s"
| "setHeader_entries ((k, v) # hs) s =
     (if v \<noteq> HUndefined then
        (case setHeader k (template_literal v) s of
           Throws e s' \<Rightarrow> Throws e s'
         | Returns _ s' \<Rightarrow> setHeader_entries hs s')
      else setHeader_entries hs s)"

definition writeHead ::
  "string \<Rightarrow> nat \<Rightarrow> (string \<times> hval) list \<Rightarrow> 'u Streamer \<Rightarrow> (unit, 'u Streamer) outcome" where
  "writeHead site status hs s =
     (case setHeader_entries hs (checkHeadersSentBy site s) of
        Throws e s' \<Rightarrow> Throws e s'
      | Returns _ s' \<Rightarrow>
          (case res_writeHead status hs (res s') of
             Throws e r \<Rightarrow> Throws e (s'\<lparr>res := r\<rparr>)
           | Returns _ r \<Rightarrow> Returns () (s'\<lparr>res := r\<rparr>)))"

text \<open>\<open>this.writer.write(chunk)\<close> and \<open>this.writer.end(...)\<close>.\<close>

definition writer_write :: "string \<Rightarrow> string \<Rightarrow> 'u Streamer \<Rightarrow> 'u Streamer" where
  "writer_write site chunk s =
     (let s' = writer site s in s'\<lparr>res := res_write chunk utf8 (res s')\<rparr>)"

definition writer_end ::
  "string \<Rightarrow> (string \<times> BufferEncoding) option \<Rightarrow> 'u Streamer \<Rightarrow> 'u Streamer" where
  "writer_end site final s =
     (let s' = writer site s in s'\<lparr>res := res_end final (res s')\<rparr>)"

subsection \<open>Single-shot senders\<close>


text \<open>
  \<open>Buffer.byteLength\<close> belongs to the platform and is the argument \<open>byteLength\<close>;
  \<open>headers['content-length'] = ...\<close> sets the property on the headers object.
\<close>

definition sendString ::
  "(string \<Rightarrow> BufferEncoding \<Rightarrow> nat) \<Rightarrow> string \<Rightarrow> nat \<Rightarrow> (string \<times> hval) list \<Rightarrow> string
     \<Rightarrow> BufferEncoding \<Rightarrow> 'u Streamer \<Rightarrow> (sentinel, 'u Streamer) outcome" where
  "sendString byteLength site status hs content encoding s =
     (case writeHead site status
             (AList.update ''content-length'' (HNumber (int (byteLength content encoding))) hs) s of
        Throws e s' \<Rightarrow> Throws e s'
      | Returns _ s' \<Rightarrow>
          if the_method s' = ''HEAD''
          then Returns STREAM_ENDED (writer_end site None s')
          else Returns STREAM_ENDED (writer_end site (Some (content, encoding)) s'))"

text \<open>In UTF-8 the byte length of a string is the length of its representation.\<close>

fun utf8_byteLength :: "string \<Rightarrow> BufferEncoding \<Rightarrow> nat" where
  "utf8_byteLength content encoding = length content"


subsection \<open>Cookies\<close>

datatype SameSite = Strict | Lax | SameSite_None

text \<open>
  The options of \<open>setCookie\<close>. \<open>expires\<close> is a \<open>Date\<close>, an object and so always
  truthy; it is represented by the text \<open>toUTCString()\<close> gives. \<open>maxAge\<close> is an
  integer number of seconds.
\<close>

record CookieOptions =
  domain :: "string option"
  path :: "string option"
  expires :: "string option"
  maxAge :: "int option"
  secure :: "bool option"
  httpOnly :: "bool option"
  sameSite :: "SameSite option"

fun SameSite_text :: "SameSite \<Rightarrow> string" where
  "SameSite_text Strict = ''Strict''"
| "SameSite_text Lax = ''Lax''"
| "SameSite_text SameSite_None = ''None''"

definition truthy_hval :: "hval option \<Rightarrow> bool" where
  "truthy_hval v =
     (case v of
        None \<Rightarrow> False
      | Some HUndefined \<Rightarrow> False
      | Some (HNumber n) \<Rightarrow> n \<noteq> 0
      | Some (HString t) \<Rightarrow> t \<noteq> []
      | Some (HArray _) \<Rightarrow> True)"

definition appendHeader :: "string \<Rightarrow> string \<Rightarrow> 'u Streamer \<Rightarrow> (unit, 'u Streamer) outcome" where
  "appendHeader name v s =
     (let current = res_getHeader name (res s);
          new = (if truthy_hval current then
                   (case current of
                      Some (HArray vs) \<Rightarrow> HArray (vs @ [v])
                    | Some c \<Rightarrow> HArray [template_literal c, v]
                    | None \<Rightarrow> HString v)
                 else HString v)
      in case res_setHeader name new (res s) of
           Throws e r \<Rightarrow> Throws e (s\<lparr>res := r\<rparr>)
         | Returns _ r \<Rightarrow> Returns () (s\<lparr>res := r\<rparr>))"

text \<open>
  One statement \<open>if (options.x) cookie += text\<close>: the text is appended when the option
  is given and truthy.
\<close>

definition append_when :: "'a option \<Rightarrow> ('a \<Rightarrow> bool) \<Rightarrow> ('a \<Rightarrow> string) \<Rightarrow> string \<Rightarrow> string" where
  "append_when option truthy text cookie =
     (case option of
        None \<Rightarrow> cookie
      | Some x \<Rightarrow> if truthy x then cookie @ text x else cookie)"

text \<open>The variable \<open>cookie\<close> after its initialisation and the seven statements, in order.\<close>

definition cookie_text :: "string \<Rightarrow> string \<Rightarrow> CookieOptions \<Rightarrow> string" where
  "cookie_text name v options =
     fold (\<lambda>statement cookie. statement cookie)
       [append_when (domain options) truthy_string (\<lambda>d. ''; Domain='' @ d),
        append_when (path options) truthy_string (\<lambda>p. ''; Path='' @ p),
        append_when (expires options) (\<lambda>e. True) (\<lambda>e. ''; Expires='' @ e),
        append_when (maxAge options) (\<lambda>a. a \<noteq> 0) (\<lambda>a. ''; Max-Age='' @ string_of_int a),
        append_when (secure options) (\<lambda>b. b) (\<lambda>b. ''; Secure''),
        append_when (httpOnly options) (\<lambda>b. b) (\<lambda>b. ''; HttpOnly''),
        append_when (sameSite options) (\<lambda>x. True) (\<lambda>x. ''; SameSite='' @ SameSite_text x)]
       (name @ ''='' @ encodeURIComponent v)"

definition setCookie ::
  "string \<Rightarrow> string \<Rightarrow> CookieOptions \<Rightarrow> 'u Streamer \<Rightarrow> (unit, 'u Streamer) outcome" where
  "setCookie name v options s = appendHeader ''Set-Cookie'' (cookie_text name v options) s"

subsection \<open>Values handed to \<open>JSON.stringify\<close>\<close>

text \<open>
  The values an event can carry: the JSON values, \<open>undefined\<close> and a \<open>BigInt\<close>
  (which \<open>JSON.stringify\<close> refuses with a \<open>TypeError\<close>). A number is integer-valued;
  an object is its list of properties in enumeration order.
\<close>

datatype jsvalue =
    Undefined
  | Null
  | Boolean bool
  | Number int
  | String string
  | BigInt int
  | Array "jsvalue list"
  | Object "(string \<times> jsvalue) list"

datatype json_result = JSON_throws | JSON_undefined | JSON_text string

definition hex4 :: "nat \<Rightarrow> string" where
  "hex4 n =
     (let h = (\<lambda>d. if d < 10 then char_of (48 + d) else char_of (87 + d :: nat))
      in [CHR ''0'', CHR ''0'', h (n div 16), h (n mod 16)])"

definition quote_char :: "char \<Rightarrow> string" where
  "quote_char c =
     (let n = (of_char c :: nat) in
      if n = 8 then [CHR 0x5C, CHR ''b'']
      else if n = 9 then [CHR 0x5C, CHR ''t'']
      else if n = 10 then [CHR 0x5C, CHR ''n'']
      else if n = 12 then [CHR 0x5C, CHR ''f'']
      else if n = 13 then [CHR 0x5C, CHR ''r'']
      else if n = 34 then [CHR 0x5C, CHR 0x22]
      else if n = 92 then [CHR 0x5C, CHR 0x5C]
      else if n < 32 then [CHR 0x5C, CHR ''u''] @ hex4 n
      else [c])"

definition QuoteJSONString :: "string \<Rightarrow> string" where
  "QuoteJSONString v = [CHR 0x22] @ concat (map quote_char v) @ [CHR 0x22]"

fun SerializeJSONProperty :: "jsvalue \<Rightarrow> json_result"
  and SerializeJSONArray :: "jsvalue list \<Rightarrow> string list option"
  and SerializeJSONObject :: "(string \<times> jsvalue) list \<Rightarrow> string list option" where
  "SerializeJSONProperty Undefined = JSON_undefined"
| "SerializeJSONProperty Null = JSON_text ''null''"
| "SerializeJSONProperty (Boolean b) = JSON_text (if b then ''true'' else ''false'')"
| "SerializeJSONProperty (Number n) = JSON_text (string_of_int n)"
| "SerializeJSONProperty (String v) = JSON_text (QuoteJSONString v)"
| "SerializeJSONProperty (BigInt n) = JSON_throws"
| "SerializeJSONProperty (Array vs) =
     (case SerializeJSONArray vs of
        None \<Rightarrow> JSON_throws
      | Some parts \<Rightarrow> JSON_text (''['' @ join '','' parts @ '']''))"
| "SerializeJSONProperty (Object ps) =
     (case SerializeJSONObject ps of
        None \<Rightarrow> JSON_throws
      | Some parts \<Rightarrow> JSON_text (''{'' @ join '','' parts @ ''}''))"
| "SerializeJSONArray [] = Some []"
| "SerializeJSONArray (v # vs) =
     (case SerializeJSONProperty v of
        JSON_throws \<Rightarrow> None
      | JSON_undefined \<Rightarrow> map_option ((#) ''null'') (SerializeJSONArray vs)
      | JSON_text t \<Rightarrow> map_option ((#) t) (SerializeJSONArray vs))"
| "SerializeJSONObject [] = Some []"
| "SerializeJSONObject ((k, v) # ps) =
     (case SerializeJSONProperty v of
        JSON_throws \<Rightarrow> None
      | JSON_undefined \<Rightarrow> SerializeJSONObject ps
      | JSON_text t \<Rightarrow> map_option ((#) (QuoteJSONString k @ '':'' @ t)) (SerializeJSONObject ps))"

definition JSON_stringify :: "jsvalue \<Rightarrow> json_result" where
  "JSON_stringify v = SerializeJSONProperty v"

subsection \<open>Server-sent events\<close>

definition sse_headers :: "(string \<times> hval) list" where
  "sse_headers =
     [(''content-type'', HString ''text/event-stream''),
      (''cache-control'', HString ''no-cache, max-age=0''),
      (''content-encoding'', HString ''identity''),
      (''connection'', HString ''keep-alive''),
      (''x-accel-buffering'', HString ''no'')]"

definition sse_preamble :: "string list" where
  "sse_preamble =
     ['': This page is a server-sent event stream. It will continue loading until you close it.'' @ [newline],
      '': https://html.spec.whatwg.org/multipage/server-sent-events.html#server-sent-events'' @ [newline],
      [newline]]"

text \<open>
  The handle \<open>sendSSE\<close> returns is a set of closures over the streamer and the retry
  value; here it is the retry value, an integer number of milliseconds when given. (The
  subscription of \<open>close\<close> to the \<open>exit\<close> event belongs to the event bus, which is not
  part of this development.)
\<close>

record SSE_handle =
  retryMilliseconds :: "int option"

definition sendSSE :: "string \<Rightarrow> int option \<Rightarrow> 'u Streamer \<Rightarrow> (SSE_handle, 'u Streamer) outcome" where
  "sendSSE site retry s =
     (if (case retry of None \<Rightarrow> False | Some r \<Rightarrow> r < 0)
      then Throws (Error ''Invalid retryMilliseconds: must be a non-negative number'') s
      else (case writeHead site 200 sse_headers s of
              Throws e s' \<Rightarrow> Throws e s'
            | Returns _ s' \<Rightarrow>
                Returns \<lparr>retryMilliseconds = retry\<rparr>
                  (fold (writer_write site) sse_preamble s')))"

text \<open>
  The array of fields of one event, before \<open>filter(truthy)\<close>: \<open>None\<close> is a falsy
  element (an empty name or id, a retry value that is \<open>undefined\<close> or \<open>0\<close>).
\<close>

definition event_fields :: "int option \<Rightarrow> string \<Rightarrow> string \<Rightarrow> string \<Rightarrow> string option list" where
  "event_fields retry name dataText ident =
     [if truthy_string name then Some (''event: '' @ name) else None,
      Some (''data: '' @ dataText),
      if truthy_string ident then Some (''id: '' @ ident) else None,
      (case retry of
         None \<Rightarrow> None
       | Some r \<Rightarrow> if r \<noteq> 0 then Some (''retry: '' @ string_of_int r) else None)]"

definition event_frame :: "int option \<Rightarrow> string \<Rightarrow> string \<Rightarrow> string \<Rightarrow> string" where
  "event_frame retry name dataText ident =
     join [newline] (List.map_filter id (event_fields retry name dataText ident))
       @ [newline, newline]"

definition emitEvent ::
  "string \<Rightarrow> SSE_handle \<Rightarrow> jsvalue \<Rightarrow> jsvalue \<Rightarrow> jsvalue \<Rightarrow> 'u Streamer
     \<Rightarrow> (unit, 'u Streamer) outcome" where
  "emitEvent site handle eventName eventData eventId s =
     (case eventName of
        String name \<Rightarrow>
          if includes_newline name then Throws (Error ''Event name cannot contain newlines'') s
          else (case eventId of
                  String ident \<Rightarrow>
                    if includes_newline ident
                    then Throws (Error ''Event ID cannot contain newlines'') s
                    else if writableEnded (res (writer site s))
                    then Throws (Error ''Cannot emit event after the stream has ended'')
                           (writer site s)
                    else (case JSON_stringify eventData of
                            JSON_throws \<Rightarrow>
                              Throws (TypeError ''Do not know how to serialize a BigInt'')
                                (writer site s)
                          | JSON_undefined \<Rightarrow>
                              Returns ()
                                (writer_write site
                                   (event_frame (retryMilliseconds handle) name ''undefined'' ident)
                                   (writer site s))
                          | JSON_text t \<Rightarrow>
                              Returns ()
                                (writer_write site
                                   (event_frame (retryMilliseconds handle) name t ident)
                                   (writer site s)))
                | _ \<Rightarrow> Throws (Error ''Event ID must be a string'') s)
      | _ \<Rightarrow>
          Throws (Error ''Event name must be a string (a zero-length string disables the field)'') s)"

definition emitComment :: "string \<Rightarrow> string \<Rightarrow> 'u Streamer \<Rightarrow> 'u Streamer" where
  "emitComment site comment s = writer_write site ('': '' @ comment @ [newline, newline]) s"

definition close :: "string \<Rightarrow> 'u Streamer \<Rightarrow> 'u Streamer" where
  "close site s = writer_end site None s"

subsection \<open>Multipart bodies\<close>

text \<open>
  \<open>isMultipartRequestHeader\<close>, \<open>getMultipartBoundary\<close> and
  \<open>parseNodeMultipartStream\<close> come from the multipart parser package and are arguments.
  The parser is given by the parts it yields for a boundary, each with the chunks appended
  to it; the result of a run that gets past the checks is the sequence of callback
  invocations.
\<close>

datatype 'p multipart_callback = cbPartStart 'p | cbPartChunk 'p string | cbPartEnd 'p

definition part_callbacks :: "'p \<times> string list \<Rightarrow> 'p multipart_callback list" where
  "part_callbacks pc = cbPartStart (fst pc) # map (cbPartChunk (fst pc)) (snd pc) @ [cbPartEnd (fst pc)]"

definition readMultipartData ::
  "(string \<Rightarrow> bool) \<Rightarrow> (string \<Rightarrow> string option) \<Rightarrow> (string \<Rightarrow> ('p \<times> string list) list)
     \<Rightarrow> 'u Streamer \<Rightarrow> exception + 'p multipart_callback list" where
  "readMultipartData isMultipartRequestHeader getMultipartBoundary parseNodeMultipartStream s =
     (case headers s ''content-type'' of
        None \<Rightarrow> Inl (SendError ''MULTIPART_INVALID_CONTENT_TYPE'' 400)
      | Some contentType \<Rightarrow>
          if \<not> truthy_string contentType \<or> \<not> isMultipartRequestHeader contentType
          then Inl (SendError ''MULTIPART_INVALID_CONTENT_TYPE'' 400)
          else (case getMultipartBoundary contentType of
                  None \<Rightarrow> Inl (SendError ''MULTIPART_MISSING_BOUNDARY'' 400)
                | Some boundary \<Rightarrow>
                    if \<not> truthy_string boundary
                    then Inl (SendError ''MULTIPART_MISSING_BOUNDARY'' 400)
                    else Inr (concat (map part_callbacks (parseNodeMultipartStream boundary)))))"

section \<open>Sequences of calls on one response\<close>

text \<open>
  The calls a handler can make on a streamer that touch the response, and the state each
  leaves behind whether it throws or returns (a handler may catch what is thrown and go
  on). The invariants of the header discipline are stated over every sequence of them.
\<close>

fun state_after :: "('a, 's) outcome \<Rightarrow> 's" where
  "state_after (Throws e s) = s"
| "state_after (Returns v s) = s"

fun throws :: "('a, 's) outcome \<Rightarrow> bool" where
  "throws (Throws e s) = True"
| "throws (Returns v s) = False"




text \<open>
  A streamer for the closed examples: a request for \<open>/\<close> on \<open>localhost\<close> with the given
  method and headers, a response on which nothing has happened, no route captures.
\<close>

definition example_request :: "string \<Rightarrow> (string \<Rightarrow> string option) \<Rightarrow> unit ParsedRequest" where
  "example_request m hdrs =
     \<lparr>res = fresh_response, url = ''/'', urlInfo = (), pathPrefix = [], expectSecure = False,
      the_method = m, host = ''localhost'', cookies = [], headers = hdrs\<rparr>"

definition example_streamer :: "string \<Rightarrow> (string \<Rightarrow> string option) \<Rightarrow> unit Streamer" where
  "example_streamer m hdrs =
     ParsedRequest.extend (example_request m hdrs)
       \<lparr>pathParams = [], headersSentBy = None, console = []\<rparr>"

section \<open>Predicates of the statements\<close>

text \<open>The header discipline of the response object itself.\<close>

definition wire_ok :: "ServerResponse \<Rightarrow> bool" where
  "wire_ok r = (length (wireHeads r) = (if headersSent r then 1 else 0))"


text \<open>No value of a headers object is \<open>undefined\<close>.\<close>

definition defined_values :: "(string \<times> hval) list \<Rightarrow> bool" where
  "defined_values hs = list_all (\<lambda>kv. snd kv \<noteq> HUndefined) hs"

text \<open>
  The stored headers after \<open>res.writeHead\<close> has merged a headers object into them, on a
  response that has sent nothing.
\<close>

definition store_all :: "(string \<times> hval) list \<Rightarrow> (string \<times> hval) list \<Rightarrow> (string \<times> hval) list" where
  "store_all hs store =
     fold (\<lambda>kv m. if fst kv = [] then m else AList.update (toLowerCase (fst kv)) (snd kv) m) hs store"

text \<open>The headers object has the header \<open>name\<close> in this spelling or not at all.\<close>

definition own_case_only :: "string \<Rightarrow> (string \<times> hval) list \<Rightarrow> bool" where
  "own_case_only name hs = list_all (\<lambda>kv. toLowerCase (fst kv) = name \<longrightarrow> fst kv = name) hs"

text \<open>
  The stored headers after the loop of \<open>writeHead\<close> has set every defined value, as text,
  on a response that has sent nothing.
\<close>

definition text_store :: "(string \<times> hval) list \<Rightarrow> (string \<times> hval) list \<Rightarrow> (string \<times> hval) list" where
  "text_store hs store =
     fold (\<lambda>kv m. if snd kv \<noteq> HUndefined
                    then AList.update (toLowerCase (fst kv)) (HString (template_literal (snd kv))) m
                    else m) hs store"


text \<open>\<open>typeof v === "string"\<close>, and a string that contains a newline.\<close>

definition is_String :: "jsvalue \<Rightarrow> bool" where
  "is_String v = (case v of String t \<Rightarrow> True | _ \<Rightarrow> False)"

definition String_has_newline :: "jsvalue \<Rightarrow> bool" where
  "String_has_newline v = (case v of String t \<Rightarrow> includes_newline t | _ \<Rightarrow> False)"

text \<open>The text that stands for the data in the template literal of the data field.\<close>

definition data_text :: "jsvalue \<Rightarrow> string" where
  "data_text d = (case JSON_stringify d of JSON_text t \<Rightarrow> t | _ \<Rightarrow> ''undefined'')"

text \<open>The options object \<open>{}\<close>.\<close>

definition no_options :: CookieOptions where
  "no_options =
     \<lparr>domain = None, path = None, expires = None, maxAge = None, secure = None,
      httpOnly = None, sameSite = None\<rparr>"

text \<open>The value \<open>appendHeader\<close> stores for a header that had the value \<open>current\<close>.\<close>

definition appended :: "hval option \<Rightarrow> string \<Rightarrow> hval" where
  "appended current v =
     (case current of
        Some (HArray vs) \<Rightarrow> HArray (vs @ [v])
      | Some (HString c) \<Rightarrow> if c = [] then HString v else HArray [c, v]
      | Some (HNumber n) \<Rightarrow> if n = 0 then HString v else HArray [string_of_int n, v]
      | _ \<Rightarrow> HString v)"

section \<open>Properties\<close>

subsection \<open>Listener ports\<close>

lemma digits_number_3000: "digits_number ''3000'' = Finite 3000"
  by (simp add: digits_number_def is_digit_def digit_value_def)

lemma digits_number_8080: "digits_number ''8080'' = Finite 8080"
  by (simp add: digits_number_def is_digit_def digit_value_def)

lemma digits_number_abc: "digits_number ''abc'' = NaN"
  by (simp add: digits_number_def is_digit_def)

text \<open>
  C8, as stated, fails: a listener configuration with no port binds the port of the
  \<open>PORT\<close> environment variable when that is set, not 8080.
\<close>

theorem C8_missing_port_counterexample:
  "startListening_port digits_number (Some ''3000'') None \<noteq> Port (Finite 8080)"
  by (simp add: startListening_port_def options2_port_def ListenerBase_listen_def
      truthy_string_def truthy_number_def digits_number_3000)

text \<open>
  C8, amended. The port a listener binds: the string \<open>"0"\<close> gives a port chosen by the
  operating system; any other non-empty string whose conversion is a number other than zero
  gives that number; a string whose conversion is not a number gives 8080; a missing port
  is replaced by the \<open>PORT\<close> environment variable when that is set and gives 8080
  otherwise.
\<close>

theorem C8_port_selection:
  "startListening_port toNumber env (Some ''0'') = OS_chosen
   \<and> (p \<noteq> ''0'' \<and> p \<noteq> [] \<and> truthy_number (toNumber p) \<longrightarrow>
        startListening_port toNumber env (Some p) = Port (toNumber p))
   \<and> (p \<noteq> ''0'' \<and> toNumber p = NaN \<longrightarrow>
        startListening_port toNumber env (Some p) = Port (Finite 8080))
   \<and> startListening_port toNumber (Some q) None = startListening_port toNumber env (Some q)
   \<and> (toNumber ''8080'' = Finite 8080 \<longrightarrow>
        startListening_port toNumber None None = Port (Finite 8080))
   \<and> ListenerBase_listen toNumber None = Port (Finite 8080)"
  by (simp add: startListening_port_def options2_port_def ListenerBase_listen_def
      truthy_string_def truthy_number_def)

theorem C8_port_selection_witness:
  "startListening_port digits_number None (Some ''0'') = OS_chosen
   \<and> startListening_port digits_number None (Some ''3000'') = Port (Finite 3000)
   \<and> startListening_port digits_number None (Some ''abc'') = Port (Finite 8080)
   \<and> startListening_port digits_number None None = Port (Finite 8080)
   \<and> startListening_port digits_number (Some ''3000'') None = Port (Finite 3000)"
  using C8_port_selection [of digits_number None "''3000''" "''3000''"]
    C8_port_selection [of digits_number None "''abc''" "''3000''"]
  by (simp add: digits_number_3000 digits_number_8080 digits_number_abc truthy_number_def)

subsection \<open>The response object and the header discipline\<close>

lemma res_setHeader_frame:
  "headersSent (state_after (res_setHeader k v r)) = headersSent r
   \<and> wireHeads (state_after (res_setHeader k v r)) = wireHeads r
   \<and> wireBody (state_after (res_setHeader k v r)) = wireBody r
   \<and> writableEnded (state_after (res_setHeader k v r)) = writableEnded r"
  by (simp add: res_setHeader_def)




lemma res_setHeader_wire_ok:
  "wire_ok r \<Longrightarrow> wire_ok (state_after (res_setHeader k v r))"
  using res_setHeader_frame [of k v r] by (simp add: wire_ok_def)













lemma writer_frame: "res (writer site s) = res s"
  by (simp add: writer_def)















subsection \<open>Headers stored by a first \<open>writeHead\<close>\<close>

lemma res_setHeaders_unsent:
  "\<not> headersSent r \<Longrightarrow> defined_values hs \<Longrightarrow>
   res_setHeaders hs r = Returns () (r\<lparr>outHeaders := store_all hs (outHeaders r)\<rparr>)"
proof (induction hs arbitrary: r)
  case Nil
  show ?case by (simp add: store_all_def)
next
  case (Cons kv hs)
  obtain k v where kv: "kv = (k, v)" by (cases kv)
  from Cons.prems have dv: "defined_values hs" and v: "v \<noteq> HUndefined"
    by (simp_all add: defined_values_def kv)
  show ?case
  proof (cases "k = []")
    case True
    with Cons.IH [OF Cons.prems(1) dv] show ?thesis by (simp add: kv store_all_def)
  next
    case False
    let ?r = "r\<lparr>outHeaders := AList.update (toLowerCase k) v (outHeaders r)\<rparr>"
    have "\<not> headersSent ?r" using Cons.prems(1) by simp
    from Cons.IH [OF this dv] False Cons.prems(1) v show ?thesis
      by (simp add: kv store_all_def res_setHeader_def)
  qed
qed

lemma map_of_store_all:
  "map_of (store_all hs store) =
     map_of store ++ map_of (rev (map (\<lambda>kv. (toLowerCase (fst kv), snd kv)) (filter (\<lambda>kv. fst kv \<noteq> []) hs)))"
proof (induction hs arbitrary: store)
  case Nil
  show ?case by (simp add: store_all_def)
next
  case (Cons kv hs)
  have step: "store_all (kv # hs) store =
      store_all hs (if fst kv = [] then store else AList.update (toLowerCase (fst kv)) (snd kv) store)"
    by (simp add: store_all_def)
  show ?case
    unfolding step Cons.IH
    by (auto simp: update_conv' map_add_def fun_eq_iff split: option.splits)
qed

lemma map_of_unique:
  assumes "(k, v) \<in> set xs" and "\<forall>v'. (k, v') \<in> set xs \<longrightarrow> v' = v"
  shows "map_of xs k = Some v"
proof -
  from assms(1) obtain u where u: "map_of xs k = Some u" by (blast dest: weak_map_of_SomeI)
  then have "(k, u) \<in> set xs" by (rule map_of_SomeD)
  with assms(2) have "u = v" by blast
  with u show ?thesis by simp
qed

lemma update_only_value:
  assumes "distinct (map fst hs)" and "(k, v') \<in> set (AList.update k v hs)"
  shows "v' = v"
proof -
  have "distinct (map fst (AList.update k v hs))" using assms(1) by (simp add: distinct_update)
  then have "map_of (AList.update k v hs) k = Some v'" using assms(2) by simp
  then show ?thesis by (simp add: update_conv')
qed

lemma update_member: "(k, v) \<in> set (AList.update k v hs)"
proof -
  have "map_of (AList.update k v hs) k = Some v" by (simp add: update_conv')
  then show ?thesis by (rule map_of_SomeD)
qed

lemma update_other_member:
  "(k', v') \<in> set (AList.update k v hs) \<Longrightarrow> k' \<noteq> k \<Longrightarrow> (k', v') \<in> set hs"
proof (induction hs)
  case Nil
  then show ?case by simp
next
  case (Cons x hs)
  obtain a b where x: "x = (a, b)" by (cases x)
  show ?case
  proof (cases "a = k")
    case True
    with Cons.prems show ?thesis by (simp add: x)
  next
    case False
    with Cons show ?thesis by (auto simp: x)
  qed
qed

lemma header_stored:
  assumes d: "distinct (map fst hs)" and oc: "own_case_only cl hs"
    and lc: "toLowerCase cl = cl" and ne: "cl \<noteq> []"
  shows "map_of (store_all (AList.update cl w hs) store) cl = Some w"
proof -
  define hs' where "hs' = AList.update cl w hs"
  define f where "f = (\<lambda>kv :: string \<times> hval. (toLowerCase (fst kv), snd kv))"
  define xs where "xs = rev (map f (filter (\<lambda>kv. fst kv \<noteq> []) hs'))"
  have set_xs: "set xs = f ` {kv \<in> set hs'. fst kv \<noteq> []}"
    by (simp add: xs_def)
  have "(cl, w) \<in> {kv \<in> set hs'. fst kv \<noteq> []}"
    using update_member [of cl w hs] ne by (simp add: hs'_def)
  then have "f (cl, w) \<in> set xs" unfolding set_xs by (rule imageI)
  then have mem: "(cl, w) \<in> set xs" using lc by (simp add: f_def)
  have uniq: "\<forall>v'. (cl, v') \<in> set xs \<longrightarrow> v' = w"
  proof (intro allI impI)
    fix v'
    assume "(cl, v') \<in> set xs"
    then obtain kv where kv: "kv \<in> set hs'" "(cl, v') = f kv"
      unfolding set_xs by blast
    obtain k u where ku: "kv = (k, u)" by (cases kv)
    from kv ku have k: "(k, v') \<in> set hs'" "toLowerCase k = cl" by (simp_all add: f_def)
    have "k = cl"
    proof (rule ccontr)
      assume nk: "k \<noteq> cl"
      from k(1) have "(k, v') \<in> set (AList.update cl w hs)" by (simp add: hs'_def)
      from this nk have in_hs: "(k, v') \<in> set hs" by (rule update_other_member)
      from oc have "\<forall>kv\<in>set hs. toLowerCase (fst kv) = cl \<longrightarrow> fst kv = cl"
        by (simp add: own_case_only_def list_all_iff)
      with in_hs have "toLowerCase k = cl \<longrightarrow> k = cl" by fastforce
      with k(2) nk show False by simp
    qed
    with k(1) have "(cl, v') \<in> set (AList.update cl w hs)" by (simp add: hs'_def)
    with d show "v' = w" by (rule update_only_value)
  qed
  have "map_of xs cl = Some w" using mem uniq by (rule map_of_unique)
  then show ?thesis
    unfolding map_of_store_all hs'_def [symmetric] f_def [symmetric] xs_def [symmetric]
    by (simp add: map_add_def)
qed

lemma toLowerCase_content_length: "toLowerCase ''content-length'' = ''content-length''"
  by (simp add: toLowerCase_def toLowerCase_char_def)

lemma setHeader_unsent:
  "\<not> headersSent (res s) \<Longrightarrow>
   setHeader k v s = Returns () (s\<lparr>res := (res s)\<lparr>outHeaders := AList.update (toLowerCase k) (HString v) (outHeaders (res s))\<rparr>\<rparr>)"
  by (simp add: setHeader_def res_setHeader_def)

lemma setHeader_entries_unsent:
  "\<not> headersSent (res s) \<Longrightarrow>
   setHeader_entries hs s = Returns () (s\<lparr>res := (res s)\<lparr>outHeaders := text_store hs (outHeaders (res s))\<rparr>\<rparr>)"
proof (induction hs arbitrary: s)
  case Nil
  show ?case by (simp add: text_store_def)
next
  case (Cons kv hs)
  obtain k v where kv: "kv = (k, v)" by (cases kv)
  show ?case
  proof (cases "v = HUndefined")
    case True
    with Cons.IH [OF Cons.prems] show ?thesis by (simp add: kv text_store_def)
  next
    case False
    let ?s = "s\<lparr>res := (res s)\<lparr>outHeaders := AList.update (toLowerCase k) (HString (template_literal v)) (outHeaders (res s))\<rparr>\<rparr>"
    have st: "setHeader k (template_literal v) s = Returns () ?s"
      using Cons.prems by (rule setHeader_unsent)
    have "\<not> headersSent (res ?s)" using Cons.prems by simp
    from Cons.IH [OF this] have
      "setHeader_entries hs ?s = Returns () (?s\<lparr>res := (res ?s)\<lparr>outHeaders := text_store hs (outHeaders (res ?s))\<rparr>\<rparr>)" .
    with False st show ?thesis by (simp add: kv text_store_def)
  qed
qed

lemma defined_values_update:
  "defined_values hs \<Longrightarrow> v \<noteq> HUndefined \<Longrightarrow> defined_values (AList.update k v hs)"
  by (induction hs) (auto simp: defined_values_def)

lemma writeHead_unsent:
  assumes u: "\<not> headersSent (res s)" and dv: "defined_values hs"
  shows "writeHead site status hs s =
           Returns () (s\<lparr>res := (res s)\<lparr>outHeaders := store_all hs (text_store hs (outHeaders (res s))),
                                       headersSent := True, statusCode := status,
                                       wireHeads := wireHeads (res s)
                                          @ [(status, store_all hs (text_store hs (outHeaders (res s))))]\<rparr>,
                        headersSentBy := Some (ErrorAt first_attempt_message site)\<rparr>)"
proof -
  define c where "c = checkHeadersSentBy site s"
  have c: "c = s\<lparr>headersSentBy := Some (ErrorAt first_attempt_message site)\<rparr>"
    using u by (simp add: c_def checkHeadersSentBy_def)
  have uc: "\<not> headersSent (res c)" using u c by simp
  define r where "r = (res c)\<lparr>outHeaders := text_store hs (outHeaders (res c))\<rparr>"
  have se: "setHeader_entries hs c = Returns () (c\<lparr>res := r\<rparr>)"
    unfolding r_def using uc by (rule setHeader_entries_unsent)
  have ur: "\<not> headersSent r" using uc by (simp add: r_def)
  have wh: "res_writeHead status hs r =
      Returns () (r\<lparr>outHeaders := store_all hs (outHeaders r), headersSent := True, statusCode := status,
                     wireHeads := wireHeads r @ [(status, store_all hs (outHeaders r))]\<rparr>)"
    using ur res_setHeaders_unsent [OF ur dv] by (simp add: res_writeHead_def)
  have "writeHead site status hs s =
      Returns () (c\<lparr>res := r\<lparr>outHeaders := store_all hs (outHeaders r), headersSent := True,
                              statusCode := status,
                              wireHeads := wireHeads r @ [(status, store_all hs (outHeaders r))]\<rparr>\<rparr>)"
    unfolding writeHead_def c_def [symmetric] se by (simp add: wh)
  also have "\<dots> = Returns () (s\<lparr>res := (res s)\<lparr>outHeaders := store_all hs (text_store hs (outHeaders (res s))),
                                       headersSent := True, statusCode := status,
                                       wireHeads := wireHeads (res s)
                                          @ [(status, store_all hs (text_store hs (outHeaders (res s))))]\<rparr>,
                        headersSentBy := Some (ErrorAt first_attempt_message site)\<rparr>)"
    by (simp add: r_def c)
  finally show ?thesis .
qed

subsection \<open>Path prefix\<close>

text \<open>
  C1. A request whose raw URL begins with \<open>/\<close>, on a listener with a non-empty path
  prefix and a response on which nothing was sent: if the raw URL is the prefix, the
  response is 302 with \<open>Location\<close> the prefix followed by \<open>/\<close>, it is ended with no
  body and \<open>STREAM_ENDED\<close> is thrown; if the raw URL starts with the prefix and is
  longer, nothing is written, \<open>STREAM_ENDED\<close> is not thrown, any state returned has
  the raw URL without the prefix as its \<open>url\<close>, and a state is returned whenever the
  host, the method, the cookies and the URL are in order; otherwise the response is 500
  with the message naming the prefix as its body, it is ended and \<open>STREAM_ENDED\<close> is
  thrown, so that no state reaches the router.
\<close>

theorem C1_parseRequest_prefix:
  assumes slash: "startsWith (req_url req) ''/''"
    and prefix: "prefix \<noteq> []"
    and fresh: "\<not> headersSent r0" "\<not> writableEnded r0"
  shows
    "(req_url req = prefix \<longrightarrow>
        (\<exists>r hs. parseRequest new_URL req r0 prefix sec = Throws (Sentinel STREAM_ENDED) r
           \<and> wireHeads r = wireHeads r0 @ [(302, hs)]
           \<and> map_of hs ''location'' = Some (HString (prefix @ ''/''))
           \<and> wireBody r = wireBody r0 \<and> writableEnded r))
     \<and> (req_url req \<noteq> prefix \<and> startsWith (req_url req) prefix \<longrightarrow>
          (\<forall>st r. parseRequest new_URL req r0 prefix sec = Returns st r \<longrightarrow>
             url st = drop (length prefix) (req_url req) \<and> r = r0 \<and> res st = r0)
          \<and> (\<forall>r. parseRequest new_URL req r0 prefix sec \<noteq> Throws (Sentinel STREAM_ENDED) r)
          \<and> (\<forall>h m cs u.
                (if httpVersionMajor req > 1 then req_headers req '':authority''
                 else req_headers req ''host'') = Some h \<and> h \<noteq> []
                \<and> req_method req = Some m \<and> m \<noteq> []
                \<and> parseCookieString (case req_headers req ''cookie'' of None \<Rightarrow> [] | Some c \<Rightarrow> c) = Inr cs
                \<and> new_URL (''https://'' @ h @ drop (length prefix) (req_url req)) = Some u
                \<longrightarrow> (\<exists>st. parseRequest new_URL req r0 prefix sec = Returns st r0
                       \<and> url st = drop (length prefix) (req_url req)
                       \<and> urlInfo st = u \<and> the_method st = m \<and> host st = h \<and> cookies st = cs
                       \<and> pathPrefix st = prefix \<and> expectSecure st = sec)))
     \<and> (\<not> startsWith (req_url req) prefix \<longrightarrow>
          (\<exists>r. parseRequest new_URL req r0 prefix sec = Throws (Sentinel STREAM_ENDED) r
             \<and> wireHeads r = wireHeads r0 @ [(500, outHeaders r0)]
             \<and> wireBody r = wireBody r0 @
                  [(''The server is setup with a path prefix '' @ prefix
                      @ '', but this request is outside of that prefix.'', utf8)]
             \<and> writableEnded r))"
proof -
  have A: "\<exists>r hs. parseRequest new_URL req r0 prefix sec = Throws (Sentinel STREAM_ENDED) r
           \<and> wireHeads r = wireHeads r0 @ [(302, hs)]
           \<and> map_of hs ''location'' = Some (HString (prefix @ ''/''))
           \<and> wireBody r = wireBody r0 \<and> writableEnded r" if eq: "req_url req = prefix"
    using slash prefix fresh eq
    by (simp add: parseRequest_def truthy_string_def res_writeHead_def res_setHeader_def
        res_end_def res_implicitHeader_def toLowerCase_def toLowerCase_char_def update_conv')
  have pr: "parseRequest new_URL req r0 prefix sec =
      parseRequest_state new_URL req r0 prefix sec (drop (length prefix) (req_url req))"
    if a: "req_url req \<noteq> prefix \<and> startsWith (req_url req) prefix"
    using slash prefix a by (simp add: parseRequest_def truthy_string_def slice_from_def)
  have B: "(\<forall>st r. parseRequest new_URL req r0 prefix sec = Returns st r \<longrightarrow>
             url st = drop (length prefix) (req_url req) \<and> r = r0 \<and> res st = r0)
          \<and> (\<forall>r. parseRequest new_URL req r0 prefix sec \<noteq> Throws (Sentinel STREAM_ENDED) r)
          \<and> (\<forall>h m cs u.
                (if httpVersionMajor req > 1 then req_headers req '':authority''
                 else req_headers req ''host'') = Some h \<and> h \<noteq> []
                \<and> req_method req = Some m \<and> m \<noteq> []
                \<and> parseCookieString (case req_headers req ''cookie'' of None \<Rightarrow> [] | Some c \<Rightarrow> c) = Inr cs
                \<and> new_URL (''https://'' @ h @ drop (length prefix) (req_url req)) = Some u
                \<longrightarrow> (\<exists>st. parseRequest new_URL req r0 prefix sec = Returns st r0
                       \<and> url st = drop (length prefix) (req_url req)
                       \<and> urlInfo st = u \<and> the_method st = m \<and> host st = h \<and> cookies st = cs
                       \<and> pathPrefix st = prefix \<and> expectSecure st = sec))"
    if a: "req_url req \<noteq> prefix \<and> startsWith (req_url req) prefix"
    unfolding pr [OF a]
    by (auto simp add: parseRequest_state_def is_narrowed_def truthy_string_def parseCookieString_def
        Let_def split: option.splits if_splits sum.splits)
  have C: "\<exists>r. parseRequest new_URL req r0 prefix sec = Throws (Sentinel STREAM_ENDED) r
             \<and> wireHeads r = wireHeads r0 @ [(500, outHeaders r0)]
             \<and> wireBody r = wireBody r0 @
                  [(''The server is setup with a path prefix '' @ prefix
                      @ '', but this request is outside of that prefix.'', utf8)]
             \<and> writableEnded r"
    if n: "\<not> startsWith (req_url req) prefix"
  proof -
    from n have ne: "req_url req \<noteq> prefix" by (auto simp: startsWith_def)
    show ?thesis
      using slash prefix fresh n ne
      by (simp add: parseRequest_def truthy_string_def res_writeHead_def
          res_end_def res_implicitHeader_def outside_prefix_message_def)
  qed
  from A B C show ?thesis by blast
qed


theorem C1_parseRequest_prefix_witness:
  "(\<exists>r hs. parseRequest Some
        \<lparr>req_url = ''/prefix'', httpVersionMajor = 1,
         req_headers = [''host'' \<mapsto> ''localhost''], req_method = Some ''GET''\<rparr>
        fresh_response ''/prefix'' False = Throws (Sentinel STREAM_ENDED) r
      \<and> wireHeads r = [(302, hs)]
      \<and> map_of hs ''location'' = Some (HString ''/prefix/'')
      \<and> wireBody r = [] \<and> writableEnded r)
   \<and> (\<exists>st. parseRequest Some
        \<lparr>req_url = ''/prefix/wiki'', httpVersionMajor = 1,
         req_headers = [''host'' \<mapsto> ''localhost''], req_method = Some ''GET''\<rparr>
        fresh_response ''/prefix'' False = Returns st fresh_response
      \<and> url st = ''/wiki'' \<and> urlInfo st = ''https://localhost/wiki'')
   \<and> (\<exists>r. parseRequest Some
        \<lparr>req_url = ''/other'', httpVersionMajor = 1,
         req_headers = [''host'' \<mapsto> ''localhost''], req_method = Some ''GET''\<rparr>
        fresh_response ''/prefix'' False = Throws (Sentinel STREAM_ENDED) r
      \<and> wireHeads r = [(500, [])]
      \<and> wireBody r =
           [(''The server is setup with a path prefix /prefix, but this request is outside of that prefix.'', utf8)]
      \<and> writableEnded r)"
proof -
  let ?h = "[''host'' \<mapsto> ''localhost'']"
  let ?q1 = "\<lparr>req_url = ''/prefix'', httpVersionMajor = 1, req_headers = ?h, req_method = Some ''GET''\<rparr>"
  let ?q2 = "\<lparr>req_url = ''/prefix/wiki'', httpVersionMajor = 1, req_headers = ?h, req_method = Some ''GET''\<rparr>"
  let ?q3 = "\<lparr>req_url = ''/other'', httpVersionMajor = 1, req_headers = ?h, req_method = Some ''GET''\<rparr>"
  have f: "\<not> headersSent fresh_response" "\<not> writableEnded fresh_response"
    by (simp_all add: fresh_response_def)
  have p: "''/prefix'' \<noteq> []" by simp
  have ck: "parseCookieString [] = Inr []" by (simp add: parseCookieString_def)
  have s1: "startsWith (req_url ?q1) ''/''" and s2: "startsWith (req_url ?q2) ''/''"
    and s3: "startsWith (req_url ?q3) ''/''" by (simp_all add: startsWith_def)
  note t1 = C1_parseRequest_prefix [OF s1 p f, of Some False]
  note t2 = C1_parseRequest_prefix [OF s2 p f, of Some False]
  note t3 = C1_parseRequest_prefix [OF s3 p f, of Some False]
  have A: "\<exists>r hs. parseRequest Some ?q1 fresh_response ''/prefix'' False = Throws (Sentinel STREAM_ENDED) r
      \<and> wireHeads r = [(302, hs)] \<and> map_of hs ''location'' = Some (HString ''/prefix/'')
      \<and> wireBody r = [] \<and> writableEnded r"
    using t1 by (simp add: fresh_response_def)
  have B: "\<exists>st. parseRequest Some ?q2 fresh_response ''/prefix'' False = Returns st fresh_response
      \<and> url st = ''/wiki'' \<and> urlInfo st = ''https://localhost/wiki''"
    using t2 ck by (simp add: startsWith_def) blast
  have C: "\<exists>r. parseRequest Some ?q3 fresh_response ''/prefix'' False = Throws (Sentinel STREAM_ENDED) r
      \<and> wireHeads r = [(500, [])]
      \<and> wireBody r =
           [(''The server is setup with a path prefix /prefix, but this request is outside of that prefix.'', utf8)]
      \<and> writableEnded r"
    using t3 by (simp add: startsWith_def fresh_response_def)
  from A B C show ?thesis by blast
qed

subsection \<open>Sending headers twice\<close>





lemma example_streamer_unsent:
  "\<not> headersSent (res (example_streamer m hdrs))
   \<and> wireHeads (res (example_streamer m hdrs)) = []
   \<and> wireBody (res (example_streamer m hdrs)) = []
   \<and> \<not> writableEnded (res (example_streamer m hdrs))
   \<and> outHeaders (res (example_streamer m hdrs)) = []
   \<and> the_method (example_streamer m hdrs) = m
   \<and> headers (example_streamer m hdrs) = hdrs
   \<and> headersSentBy (example_streamer m hdrs) = None
   \<and> console (example_streamer m hdrs) = []"
  by (simp add: example_streamer_def example_request_def fresh_response_def
      ParsedRequest.extend_def)




subsection \<open>\<open>sendString\<close>\<close>

lemma writer_sent: "headersSent (res s) \<Longrightarrow> writer site s = s"
  by (simp add: writer_def)

lemma writer_end_sent:
  "headersSent (res s) \<Longrightarrow> \<not> writableEnded (res s) \<Longrightarrow>
   writer_end site final s =
     s\<lparr>res := (res s)\<lparr>wireBody := wireBody (res s) @ (case final of None \<Rightarrow> [] | Some c \<Rightarrow> [c]),
                          writableEnded := True\<rparr>\<rparr>"
  by (simp add: writer_end_def writer_sent res_end_def res_implicitHeader_def Let_def)

text \<open>
  C7. On a response on which nothing was sent, with a headers object whose values are
  defined and which has no \<open>content-length\<close> in another spelling, \<open>sendString\<close>
  returns the sentinel; the one header block it sends carries the given status and a
  \<open>content-length\<close> equal to the byte length of the data in the given encoding; for
  \<open>HEAD\<close> the response is ended with no body chunk, for any other method the one body
  chunk is the data in its encoding.
\<close>

theorem C7_sendString:
  assumes unsent: "\<not> headersSent (res s)" and open_: "\<not> writableEnded (res s)"
    and dv: "defined_values hs" and obj: "distinct (map fst hs)"
    and oc: "own_case_only ''content-length'' hs"
  shows "\<exists>s' block.
           sendString bl site status hs content enc s = Returns STREAM_ENDED s'
           \<and> wireHeads (res s') = wireHeads (res s) @ [(status, block)]
           \<and> map_of block ''content-length'' = Some (HNumber (int (bl content enc)))
           \<and> res_getHeader ''content-length'' (res s') = Some (HNumber (int (bl content enc)))
           \<and> wireBody (res s') =
               wireBody (res s) @ (if the_method s = ''HEAD'' then [] else [(content, enc)])
           \<and> writableEnded (res s')"
proof -
  define n where "n = int (bl content enc)"
  define hs' where "hs' = AList.update ''content-length'' (HNumber n) hs"
  define block where "block = store_all hs' (text_store hs' (outHeaders (res s)))"
  define s1 where
    "s1 = s\<lparr>res := (res s)\<lparr>outHeaders := block, headersSent := True, statusCode := status,
                             wireHeads := wireHeads (res s) @ [(status, block)]\<rparr>,
             headersSentBy := Some (ErrorAt first_attempt_message site)\<rparr>"
  have dv': "defined_values hs'" unfolding hs'_def using dv by (rule defined_values_update) simp
  have w: "writeHead site status hs' s = Returns () s1"
    unfolding s1_def block_def by (rule writeHead_unsent [OF unsent dv'])
  have cl: "map_of block ''content-length'' = Some (HNumber n)"
    unfolding block_def hs'_def
    by (rule header_stored [OF obj oc toLowerCase_content_length]) simp
  have s1_sent: "headersSent (res s1)" and s1_open: "\<not> writableEnded (res s1)"
    and s1_method: "the_method s1 = the_method s"
    using open_ by (simp_all add: s1_def)
  define final where "final = (if the_method s = ''HEAD'' then None else Some (content, enc))"
  define s2 where "s2 = writer_end site final s1"
  have s2: "s2 = s1\<lparr>res := (res s1)\<lparr>wireBody := wireBody (res s1) @ (case final of None \<Rightarrow> [] | Some c \<Rightarrow> [c]),
                                       writableEnded := True\<rparr>\<rparr>"
    unfolding s2_def by (rule writer_end_sent [OF s1_sent s1_open])
  have "sendString bl site status hs content enc s = Returns STREAM_ENDED s2"
    unfolding sendString_def n_def [symmetric] hs'_def [symmetric] w s2_def final_def
    by (simp add: s1_method)
  moreover have "wireHeads (res s2) = wireHeads (res s) @ [(status, block)]"
    by (simp add: s2 s1_def)
  moreover have "res_getHeader ''content-length'' (res s2) = Some (HNumber n)"
    using cl by (simp add: s2 s1_def res_getHeader_def toLowerCase_content_length)
  moreover have "wireBody (res s2) =
      wireBody (res s) @ (if the_method s = ''HEAD'' then [] else [(content, enc)])"
    by (simp add: s2 s1_def final_def)
  moreover have "writableEnded (res s2)" by (simp add: s2)
  ultimately show ?thesis using cl unfolding n_def by blast
qed

theorem C7_sendString_witness:
  "(\<exists>s' block.
      sendString utf8_byteLength ''handler'' 200 [(''content-type'', HString ''text/plain'')]
        ''hello'' utf8 (example_streamer ''GET'' Map.empty) = Returns STREAM_ENDED s'
      \<and> wireHeads (res s') = [(200, block)]
      \<and> map_of block ''content-length'' = Some (HNumber 5)
      \<and> wireBody (res s') = [(''hello'', utf8)] \<and> writableEnded (res s'))
   \<and> (\<exists>s' block.
      sendString utf8_byteLength ''handler'' 200 [(''content-type'', HString ''text/plain'')]
        ''hello'' utf8 (example_streamer ''HEAD'' Map.empty) = Returns STREAM_ENDED s'
      \<and> wireHeads (res s') = [(200, block)]
      \<and> map_of block ''content-length'' = Some (HNumber 5)
      \<and> wireBody (res s') = [] \<and> writableEnded (res s'))"
proof -
  let ?hs = "[(''content-type'', HString ''text/plain'')]"
  have hs: "defined_values ?hs" "distinct (map fst ?hs)" "own_case_only ''content-length'' ?hs"
    by (simp_all add: defined_values_def own_case_only_def toLowerCase_def toLowerCase_char_def)
  have u: "\<not> headersSent (res (example_streamer m Map.empty))"
    "\<not> writableEnded (res (example_streamer m Map.empty))" for m
    by (simp_all add: example_streamer_unsent)
  from C7_sendString [OF u(1) u(2) hs, of utf8_byteLength "''handler''" 200 "''hello''" utf8 "''GET''"]
  have A: "\<exists>s' block.
      sendString utf8_byteLength ''handler'' 200 ?hs ''hello'' utf8 (example_streamer ''GET'' Map.empty)
        = Returns STREAM_ENDED s'
      \<and> wireHeads (res s') = [(200, block)]
      \<and> map_of block ''content-length'' = Some (HNumber 5)
      \<and> wireBody (res s') = [(''hello'', utf8)] \<and> writableEnded (res s')"
    by (simp add: example_streamer_unsent) blast
  from C7_sendString [OF u(1) u(2) hs, of utf8_byteLength "''handler''" 200 "''hello''" utf8 "''HEAD''"]
  have B: "\<exists>s' block.
      sendString utf8_byteLength ''handler'' 200 ?hs ''hello'' utf8 (example_streamer ''HEAD'' Map.empty)
        = Returns STREAM_ENDED s'
      \<and> wireHeads (res s') = [(200, block)]
      \<and> map_of block ''content-length'' = Some (HNumber 5)
      \<and> wireBody (res s') = [] \<and> writableEnded (res s')"
    by (simp add: example_streamer_unsent) blast
  from A B show ?thesis by blast
qed

subsection \<open>Path parameters\<close>










lemma new_Streamer_no_captures:
  "new_Streamer transform (example_request m hdrs) ([] :: unit RouteMatch list)
     = Inr (example_streamer m hdrs)"
  by (simp add: new_Streamer_def merged_groups_def example_streamer_def)







subsection \<open>Multipart bodies\<close>

text \<open>
  C4. \<open>readMultipartData\<close> fails with \<open>MULTIPART_INVALID_CONTENT_TYPE\<close> and status 400
  exactly when the request has no \<open>Content-Type\<close> header, an empty one or one that is
  not a multipart type; it fails with \<open>MULTIPART_MISSING_BOUNDARY\<close> and status 400
  exactly when the header is a multipart type and carries no boundary (none, or an empty
  one); in every other case it goes on to the parts, invoking the callbacks part by part.
\<close>

theorem C4_readMultipartData:
  "(readMultipartData isMultipart getBoundary parse s
      = Inl (SendError ''MULTIPART_INVALID_CONTENT_TYPE'' 400)
    \<longleftrightarrow> (case headers s ''content-type'' of
           None \<Rightarrow> True
         | Some ct \<Rightarrow> ct = [] \<or> \<not> isMultipart ct))
   \<and> (readMultipartData isMultipart getBoundary parse s
      = Inl (SendError ''MULTIPART_MISSING_BOUNDARY'' 400)
    \<longleftrightarrow> (case headers s ''content-type'' of
           None \<Rightarrow> False
         | Some ct \<Rightarrow> ct \<noteq> [] \<and> isMultipart ct
                     \<and> (getBoundary ct = None \<or> getBoundary ct = Some [])))
   \<and> (\<forall>ct b. headers s ''content-type'' = Some ct \<and> ct \<noteq> [] \<and> isMultipart ct
         \<and> getBoundary ct = Some b \<and> b \<noteq> []
         \<longrightarrow> readMultipartData isMultipart getBoundary parse s
               = Inr (concat (map part_callbacks (parse b))))
   \<and> (\<forall>e. readMultipartData isMultipart getBoundary parse s = Inl e
         \<longrightarrow> e = SendError ''MULTIPART_INVALID_CONTENT_TYPE'' 400
             \<or> e = SendError ''MULTIPART_MISSING_BOUNDARY'' 400)"
  by (auto simp: readMultipartData_def truthy_string_def split: option.splits)

theorem C4_readMultipartData_witness:
  "readMultipartData (\<lambda>ct. startsWith ct ''multipart/'')
       [''multipart/form-data; boundary=xyz'' \<mapsto> ''xyz'']
       (\<lambda>b. [(''file'', [''chunk 1'', ''chunk 2''])])
       (example_streamer ''POST'' Map.empty)
     = Inl (SendError ''MULTIPART_INVALID_CONTENT_TYPE'' 400)
   \<and> readMultipartData (\<lambda>ct. startsWith ct ''multipart/'')
       [''multipart/form-data; boundary=xyz'' \<mapsto> ''xyz'']
       (\<lambda>b. [(''file'', [''chunk 1'', ''chunk 2''])])
       (example_streamer ''POST'' [''content-type'' \<mapsto> ''application/json''])
     = Inl (SendError ''MULTIPART_INVALID_CONTENT_TYPE'' 400)
   \<and> readMultipartData (\<lambda>ct. startsWith ct ''multipart/'')
       [''multipart/form-data; boundary=xyz'' \<mapsto> ''xyz'']
       (\<lambda>b. [(''file'', [''chunk 1'', ''chunk 2''])])
       (example_streamer ''POST'' [''content-type'' \<mapsto> ''multipart/form-data''])
     = Inl (SendError ''MULTIPART_MISSING_BOUNDARY'' 400)
   \<and> readMultipartData (\<lambda>ct. startsWith ct ''multipart/'')
       [''multipart/form-data; boundary=xyz'' \<mapsto> ''xyz'']
       (\<lambda>b. [(''file'', [''chunk 1'', ''chunk 2''])])
       (example_streamer ''POST'' [''content-type'' \<mapsto> ''multipart/form-data; boundary=xyz''])
     = Inr [cbPartStart ''file'', cbPartChunk ''file'' ''chunk 1'',
            cbPartChunk ''file'' ''chunk 2'', cbPartEnd ''file'']"
proof -
  let ?m = "\<lambda>ct. startsWith ct ''multipart/''"
  let ?g = "[''multipart/form-data; boundary=xyz'' \<mapsto> ''xyz'']"
  let ?p = "\<lambda>b :: string. [(''file'', [''chunk 1'', ''chunk 2''])]"
  have A: "readMultipartData ?m ?g ?p (example_streamer ''POST'' Map.empty)
      = Inl (SendError ''MULTIPART_INVALID_CONTENT_TYPE'' 400)"
    using C4_readMultipartData [of ?m ?g ?p "example_streamer ''POST'' Map.empty"]
    by (simp add: example_streamer_unsent)
  have B: "readMultipartData ?m ?g ?p (example_streamer ''POST'' [''content-type'' \<mapsto> ''application/json''])
      = Inl (SendError ''MULTIPART_INVALID_CONTENT_TYPE'' 400)"
    using C4_readMultipartData [of ?m ?g ?p
        "example_streamer ''POST'' [''content-type'' \<mapsto> ''application/json'']"]
    by (simp add: example_streamer_unsent startsWith_def)
  have C: "readMultipartData ?m ?g ?p (example_streamer ''POST'' [''content-type'' \<mapsto> ''multipart/form-data''])
      = Inl (SendError ''MULTIPART_MISSING_BOUNDARY'' 400)"
    using C4_readMultipartData [of ?m ?g ?p
        "example_streamer ''POST'' [''content-type'' \<mapsto> ''multipart/form-data'']"]
    by (simp add: example_streamer_unsent startsWith_def)
  have D: "readMultipartData ?m ?g ?p
        (example_streamer ''POST'' [''content-type'' \<mapsto> ''multipart/form-data; boundary=xyz''])
      = Inr [cbPartStart ''file'', cbPartChunk ''file'' ''chunk 1'',
             cbPartChunk ''file'' ''chunk 2'', cbPartEnd ''file'']"
    using C4_readMultipartData [of ?m ?g ?p
        "example_streamer ''POST'' [''content-type'' \<mapsto> ''multipart/form-data; boundary=xyz'']"]
    by (simp add: example_streamer_unsent startsWith_def part_callbacks_def)
  from A B C D show ?thesis by blast
qed

subsection \<open>Server-sent events\<close>

lemma writer_write_sent:
  "headersSent (res s) \<Longrightarrow> \<not> writableEnded (res s) \<Longrightarrow>
   writer_write site c s = s\<lparr>res := (res s)\<lparr>wireBody := wireBody (res s) @ [(c, utf8)]\<rparr>\<rparr>"
  by (simp add: writer_write_def writer_sent res_write_def res_implicitHeader_def Let_def)

lemma writer_write_body:
  "wireBody (res (writer_write site c s))
     = (if writableEnded (res s) then wireBody (res s) else wireBody (res s) @ [(c, utf8)])
   \<and> writableEnded (res (writer_write site c s)) = writableEnded (res s)"
  by (simp add: writer_write_def writer_frame res_write_def res_implicitHeader_def Let_def)

lemma defined_sse_headers: "defined_values sse_headers"
  by (simp add: defined_values_def sse_headers_def)

lemma sendSSE_unsent:
  assumes u: "\<not> headersSent (res s)" and o: "\<not> writableEnded (res s)"
    and r: "case retry of None \<Rightarrow> True | Some n \<Rightarrow> 0 \<le> n"
  shows "\<exists>s'. sendSSE site retry s = Returns \<lparr>retryMilliseconds = retry\<rparr> s'
           \<and> headersSent (res s') \<and> \<not> writableEnded (res s')
           \<and> wireBody (res s') = wireBody (res s) @ map (\<lambda>c. (c, utf8)) sse_preamble"
proof -
  from writeHead_unsent [OF u defined_sse_headers, of site 200] obtain s1 where
    w: "writeHead site 200 sse_headers s = Returns () s1"
    and s1: "headersSent (res s1)" "\<not> writableEnded (res s1)" "wireBody (res s1) = wireBody (res s)"
    using o by auto
  obtain a b c where pre: "sse_preamble = [a, b, c]" by (simp add: sse_preamble_def)
  define s2 where "s2 = writer_write site a s1"
  define s3 where "s3 = writer_write site b s2"
  define s4 where "s4 = writer_write site c s3"
  have s2: "headersSent (res s2)" "\<not> writableEnded (res s2)"
    "wireBody (res s2) = wireBody (res s) @ [(a, utf8)]"
    using s1 by (simp_all add: s2_def writer_write_sent)
  then have s3: "headersSent (res s3)" "\<not> writableEnded (res s3)"
    "wireBody (res s3) = wireBody (res s) @ [(a, utf8), (b, utf8)]"
    by (simp_all add: s3_def writer_write_sent)
  then have s4: "headersSent (res s4)" "\<not> writableEnded (res s4)"
    "wireBody (res s4) = wireBody (res s) @ [(a, utf8), (b, utf8), (c, utf8)]"
    by (simp_all add: s4_def writer_write_sent)
  have neg: "\<not> (case retry of None \<Rightarrow> False | Some n \<Rightarrow> n < 0)"
    using r by (simp split: option.splits)
  have "sendSSE site retry s = Returns \<lparr>retryMilliseconds = retry\<rparr> s4"
    unfolding sendSSE_def using neg by (simp add: w pre s4_def s3_def s2_def)
  with s4 show ?thesis by (simp add: pre)
qed

lemma emitEvent_throws_iff:
  "throws (emitEvent site h n d i s)
   \<longleftrightarrow> (\<not> is_String n \<or> String_has_newline n \<or> \<not> is_String i \<or> String_has_newline i
        \<or> writableEnded (res s) \<or> JSON_stringify d = JSON_throws)"
  by (cases n; cases i; cases "JSON_stringify d")
     (simp_all add: emitEvent_def is_String_def String_has_newline_def writer_frame)

lemma emitEvent_returns:
  assumes "\<not> throws (emitEvent site h (String name) d (String ident) s)"
  shows "wireBody (res (state_after (emitEvent site h (String name) d (String ident) s)))
           = wireBody (res s) @ [(event_frame (retryMilliseconds h) name (data_text d) ident, utf8)]
         \<and> \<not> writableEnded (res (state_after (emitEvent site h (String name) d (String ident) s)))"
proof -
  from assms have ok: "\<not> includes_newline name" "\<not> includes_newline ident"
    "\<not> writableEnded (res s)" "JSON_stringify d \<noteq> JSON_throws"
    by (simp_all add: emitEvent_throws_iff is_String_def String_has_newline_def)
  then show ?thesis
    by (cases "JSON_stringify d")
       (simp_all add: emitEvent_def data_text_def writer_write_body writer_frame)
qed

lemma emitEvent_throws_body:
  "throws (emitEvent site h n d i s) \<Longrightarrow>
   wireBody (res (state_after (emitEvent site h n d i s))) = wireBody (res s)"
  by (cases n; cases i; cases "JSON_stringify d")
     (simp_all add: emitEvent_def writer_frame split: if_splits)

lemma char_of_not_newline: "m mod 256 \<noteq> 10 \<Longrightarrow> (char_of (m :: nat) :: char) \<noteq> newline"
proof
  assume m: "m mod 256 \<noteq> 10" and "(char_of m :: char) = newline"
  then have "(of_char (char_of m :: char) :: nat) = of_char newline" by simp
  then have "m mod 256 = 10" by (simp add: newline_def)
  with m show False by simp
qed

lemma printable_not_newline: "32 \<le> (of_char c :: nat) \<Longrightarrow> c \<noteq> newline"
  by (auto simp: newline_def)

lemma no_newline_literals:
  "newline \<notin> set ''null''" "newline \<notin> set ''true''" "newline \<notin> set ''false''"
  "newline \<notin> set ''undefined''" "newline \<notin> set '',''" "newline \<notin> set '':''"
  "newline \<notin> set ''[''" "newline \<notin> set '']''" "newline \<notin> set ''{''" "newline \<notin> set ''}''"
  "newline \<notin> set ''event: ''" "newline \<notin> set ''data: ''" "newline \<notin> set ''id: ''"
  "newline \<notin> set ''retry: ''" "newline \<notin> set ''-''"
  by (simp_all add: newline_def)

lemma string_of_nat_no_newline: "newline \<notin> set (string_of_nat n)"
proof (induction n rule: string_of_nat.induct)
  case (1 n)
  show ?case
  proof (cases "n < 10")
    case True
    then have "48 + n < 256" by linarith
    then have "(48 + n) mod 256 = 48 + n" by (rule mod_less)
    then have "(48 + n) mod 256 \<noteq> 10" by linarith
    then have "(char_of (48 + n) :: char) \<noteq> newline" by (rule char_of_not_newline)
    with True show ?thesis by (simp add: string_of_nat.simps [of n])
  next
    case False
    have "n mod 10 < 10" by simp
    then have "48 + n mod 10 < 256" by linarith
    then have "(48 + n mod 10) mod 256 = 48 + n mod 10" by (rule mod_less)
    then have "(48 + n mod 10) mod 256 \<noteq> 10" by linarith
    then have "(char_of (48 + n mod 10) :: char) \<noteq> newline" by (rule char_of_not_newline)
    with False 1 show ?thesis by (simp add: string_of_nat.simps [of n])
  qed
qed

lemma string_of_int_no_newline: "newline \<notin> set (string_of_int i)"
  using no_newline_literals(15) by (simp add: string_of_int_def string_of_nat_no_newline)

lemma hex4_no_newline:
  assumes n: "n < 32"
  shows "newline \<notin> set (hex4 n)"
proof -
  have h: "(char_of (if d < 10 then 48 + d else 87 + d :: nat) :: char) \<noteq> newline" if "d < 16" for d
  proof (rule char_of_not_newline)
    define m where "m = (if d < 10 then 48 + d else 87 + d)"
    from that have "48 \<le> m" "m < 256" by (simp_all add: m_def)
    then have "m mod 256 = m" by simp
    with \<open>48 \<le> m\<close> show "(if d < 10 then 48 + d else 87 + d) mod 256 \<noteq> 10"
      unfolding m_def [symmetric] by linarith
  qed
  from n have d: "n div 16 < 16" "n mod 16 < 16" by simp_all
  have z: "CHR ''0'' \<noteq> newline" by (simp add: newline_def)
  have eq: "hex4 n = [CHR ''0'', CHR ''0'',
      char_of (if n div 16 < 10 then 48 + n div 16 else 87 + n div 16),
      char_of (if n mod 16 < 10 then 48 + n mod 16 else 87 + n mod 16)]"
    by (simp add: hex4_def Let_def)
  show ?thesis
    unfolding eq using h [OF d(1), symmetric] h [OF d(2), symmetric] z [symmetric]
    by (simp only: set_simps insert_iff empty_iff simp_thms not_False_eq_True)
qed


lemma quote_char_no_newline: "newline \<notin> set (quote_char c)"
proof -
  define n where "n = (of_char c :: nat)"
  have bs: "CHR 0x5C \<noteq> newline" "CHR ''b'' \<noteq> newline" "CHR ''t'' \<noteq> newline"
    "CHR ''n'' \<noteq> newline" "CHR ''f'' \<noteq> newline" "CHR ''r'' \<noteq> newline"
    "CHR 0x22 \<noteq> newline" "CHR ''u'' \<noteq> newline"
    by (simp_all add: newline_def)
  have two: "newline \<notin> set [a, b]" if "a \<noteq> newline" "b \<noteq> newline" for a b :: char
    using that by auto
  consider "n = 8" | "n = 9" | "n = 10" | "n = 12" | "n = 13" | "n = 34" | "n = 92"
    | "n < 32" "n \<notin> {8, 9, 10, 12, 13}" | "32 \<le> n" "n \<noteq> 34" "n \<noteq> 92"
    by fastforce
  then show ?thesis
  proof cases
    case 1 then show ?thesis unfolding quote_char_def n_def [symmetric] Let_def
      using two [OF bs(1) bs(2)] by simp
  next
    case 2 then show ?thesis unfolding quote_char_def n_def [symmetric] Let_def
      using two [OF bs(1) bs(3)] by simp
  next
    case 3 then show ?thesis unfolding quote_char_def n_def [symmetric] Let_def
      using two [OF bs(1) bs(4)] by simp
  next
    case 4 then show ?thesis unfolding quote_char_def n_def [symmetric] Let_def
      using two [OF bs(1) bs(5)] by simp
  next
    case 5 then show ?thesis unfolding quote_char_def n_def [symmetric] Let_def
      using two [OF bs(1) bs(6)] by simp
  next
    case 6 then show ?thesis unfolding quote_char_def n_def [symmetric] Let_def
      using two [OF bs(1) bs(7)] by simp
  next
    case 7 then show ?thesis unfolding quote_char_def n_def [symmetric] Let_def
      using two [OF bs(1) bs(1)] by simp
  next
    case 8
    then have q: "quote_char c = [CHR 0x5C, CHR ''u''] @ hex4 n"
      unfolding quote_char_def n_def [symmetric] Let_def by auto
    show ?thesis unfolding q using two [OF bs(1) bs(8)] hex4_no_newline [OF 8(1)] by simp
  next
    case 9
    then have q: "quote_char c = [c]"
      unfolding quote_char_def n_def [symmetric] Let_def by auto
    from 9(1) have "c \<noteq> newline" unfolding n_def by (rule printable_not_newline)
    then show ?thesis unfolding q by simp
  qed
qed

lemma QuoteJSONString_no_newline: "newline \<notin> set (QuoteJSONString v)"
proof -
  have q: "CHR 0x22 \<noteq> newline" by (simp add: newline_def)
  have "newline \<notin> set (concat (map quote_char v))"
    using quote_char_no_newline by (induction v) simp_all
  with q show ?thesis by (simp add: QuoteJSONString_def)
qed

lemma join_no_newline:
  "newline \<notin> set sep \<Longrightarrow> \<forall>x\<in>set xs. newline \<notin> set x \<Longrightarrow> newline \<notin> set (join sep xs)"
  by (induction sep xs rule: join.induct) simp_all


lemma Serialize_no_newline:
  "(\<forall>t. SerializeJSONProperty v = JSON_text t \<longrightarrow> newline \<notin> set t)"
  "(\<forall>ps. SerializeJSONArray vs = Some ps \<longrightarrow> (\<forall>p\<in>set ps. newline \<notin> set p))"
  "(\<forall>ps. SerializeJSONObject kvs = Some ps \<longrightarrow> (\<forall>p\<in>set ps. newline \<notin> set p))"
proof (induction v and vs and kvs rule: SerializeJSONProperty_SerializeJSONArray_SerializeJSONObject.induct)
  case 1
  show ?case by simp
next
  case 2
  show ?case using no_newline_literals(1) by simp
next
  case (3 b)
  show ?case using no_newline_literals(2,3) by simp
next
  case (4 n)
  show ?case by (simp add: string_of_int_no_newline)
next
  case (5 v)
  show ?case by (simp add: QuoteJSONString_no_newline)
next
  case (6 n)
  show ?case by simp
next
  case (7 vs)
  show ?case
  proof (cases "SerializeJSONArray vs")
    case None
    then show ?thesis by simp
  next
    case (Some ps)
    with 7 have "\<forall>p\<in>set ps. newline \<notin> set p" by simp
    with no_newline_literals(5) have "newline \<notin> set (join '','' ps)" by (rule join_no_newline)
    with Some no_newline_literals(7,8) show ?thesis by simp
  qed
next
  case (8 kvs)
  show ?case
  proof (cases "SerializeJSONObject kvs")
    case None
    then show ?thesis by simp
  next
    case (Some ps)
    with 8 have "\<forall>p\<in>set ps. newline \<notin> set p" by simp
    with no_newline_literals(5) have "newline \<notin> set (join '','' ps)" by (rule join_no_newline)
    with Some no_newline_literals(9,10) show ?thesis by simp
  qed
next
  case 9
  show ?case by simp
next
  case (10 v vs)
  show ?case
  proof (cases "SerializeJSONProperty v")
    case JSON_throws
    then show ?thesis by simp
  next
    case JSON_undefined
    with 10 no_newline_literals(1) show ?thesis by auto
  next
    case (JSON_text t)
    with 10 show ?thesis by auto
  qed
next
  case 11
  show ?case by simp
next
  case (12 k v kvs)
  show ?case
  proof (cases "SerializeJSONProperty v")
    case JSON_throws
    then show ?thesis by simp
  next
    case JSON_undefined
    with 12 show ?thesis by auto
  next
    case (JSON_text t)
    with 12 QuoteJSONString_no_newline [of k] no_newline_literals(6) show ?thesis by auto
  qed
qed

lemma data_text_no_newline: "newline \<notin> set (data_text d)"
proof (cases "JSON_stringify d")
  case (JSON_text t)
  with Serialize_no_newline(1) [of d] show ?thesis
    by (simp add: data_text_def JSON_stringify_def)
next
  case JSON_throws
  then show ?thesis using no_newline_literals(4) by (simp add: data_text_def)
next
  case JSON_undefined
  then show ?thesis using no_newline_literals(4) by (simp add: data_text_def)
qed

text \<open>
  The lines of one frame: the fields that are left after \<open>filter(truthy)\<close>. None is
  empty and none contains a newline, so the frame has one blank line, at its end.
\<close>

lemma event_frame_lines:
  assumes nm: "\<not> includes_newline name" and idn: "\<not> includes_newline ident"
  shows "\<exists>lines. event_frame r name (data_text d) ident = join [newline] lines @ [newline, newline]
           \<and> lines \<noteq> [] \<and> (\<forall>l\<in>set lines. l \<noteq> [] \<and> newline \<notin> set l)"
proof -
  define fields where "fields = event_fields r name (data_text d) ident"
  define lines where "lines = List.map_filter id fields"
  have frame: "event_frame r name (data_text d) ident = join [newline] lines @ [newline, newline]"
    by (simp add: event_frame_def lines_def fields_def)
  have set_lines: "set lines = {l. Some l \<in> set fields}"
    by (force simp: lines_def List.map_filter_def image_iff)
  have f1: "newline \<notin> set (''event: '' @ name)"
    using nm no_newline_literals(11) by (simp add: includes_newline_def)
  have f2: "newline \<notin> set (''data: '' @ data_text d)"
    using data_text_no_newline [of d] no_newline_literals(12) by simp
  have f3: "newline \<notin> set (''id: '' @ ident)"
    using idn no_newline_literals(13) by (simp add: includes_newline_def)
  have f4: "newline \<notin> set (''retry: '' @ string_of_int k)" for k
    using string_of_int_no_newline [of k] no_newline_literals(14) by simp
  have each: "l \<noteq> [] \<and> newline \<notin> set l" if "Some l \<in> set fields" for l
  proof -
    from that consider "l = ''event: '' @ name" | "l = ''data: '' @ data_text d"
      | "l = ''id: '' @ ident" | k where "l = ''retry: '' @ string_of_int k"
      by (auto simp: fields_def event_fields_def split: if_splits option.splits)
    then show ?thesis
    proof cases
      case 1 with f1 show ?thesis by simp
    next
      case 2 with f2 show ?thesis by simp
    next
      case 3 with f3 show ?thesis by simp
    next
      case 4 with f4 [of k] show ?thesis by simp
    qed
  qed
  have "Some (''data: '' @ data_text d) \<in> set fields"
    by (simp add: fields_def event_fields_def)
  then have "lines \<noteq> []" using set_lines by auto
  with frame each set_lines show ?thesis by blast
qed

text \<open>
  C6, as stated, fails: with a name and an id that are strings without newlines and a
  stream that is not ended, \<open>emitEvent\<close> still throws when the data cannot be
  serialised.
\<close>

theorem C6_emitEvent_counterexample:
  "throws (emitEvent ''handler'' \<lparr>retryMilliseconds = None\<rparr> (String ''tick'') (BigInt 1) (String ''7'')
       (state_after (sendSSE ''handler'' None (example_streamer ''GET'' Map.empty))))
   \<and> is_String (String ''tick'') \<and> \<not> String_has_newline (String ''tick'')
   \<and> is_String (String ''7'') \<and> \<not> String_has_newline (String ''7'')
   \<and> \<not> writableEnded (res (state_after (sendSSE ''handler'' None (example_streamer ''GET'' Map.empty))))"
proof -
  from sendSSE_unsent [of "example_streamer ''GET'' Map.empty" None "''handler''"]
  have "\<not> writableEnded (res (state_after (sendSSE ''handler'' None (example_streamer ''GET'' Map.empty))))"
    by (auto simp: example_streamer_unsent)
  then show ?thesis
    by (simp add: emitEvent_throws_iff is_String_def String_has_newline_def includes_newline_def
        newline_def JSON_stringify_def)
qed

text \<open>
  C6, amended. \<open>emitEvent\<close> throws exactly when the event name is not a string or
  contains a newline, the event id is not a string or contains a newline, the stream has
  already been ended, or the data cannot be serialised by \<open>JSON.stringify\<close>. When it
  throws, nothing is written; when it returns, it has written exactly one chunk, the frame
  of the event, and the stream stays open. The frame is one event: lines that are not
  empty and hold no newline, separated by single newlines and closed by one blank line.
\<close>

theorem C6_emitEvent:
  "(throws (emitEvent site h n d i s)
     \<longleftrightarrow> (\<not> is_String n \<or> String_has_newline n \<or> \<not> is_String i \<or> String_has_newline i
          \<or> writableEnded (res s) \<or> JSON_stringify d = JSON_throws))
   \<and> (throws (emitEvent site h n d i s) \<longrightarrow>
        wireBody (res (state_after (emitEvent site h n d i s))) = wireBody (res s))
   \<and> (\<not> throws (emitEvent site h (String name) d (String ident) s) \<longrightarrow>
        wireBody (res (state_after (emitEvent site h (String name) d (String ident) s)))
          = wireBody (res s) @ [(event_frame (retryMilliseconds h) name (data_text d) ident, utf8)]
        \<and> \<not> writableEnded (res (state_after (emitEvent site h (String name) d (String ident) s)))
        \<and> (\<exists>lines. event_frame (retryMilliseconds h) name (data_text d) ident
                      = join [newline] lines @ [newline, newline]
                   \<and> lines \<noteq> [] \<and> (\<forall>l\<in>set lines. l \<noteq> [] \<and> newline \<notin> set l)))"
proof -
  have "\<exists>lines. event_frame (retryMilliseconds h) name (data_text d) ident
                      = join [newline] lines @ [newline, newline]
                   \<and> lines \<noteq> [] \<and> (\<forall>l\<in>set lines. l \<noteq> [] \<and> newline \<notin> set l)"
    if "\<not> throws (emitEvent site h (String name) d (String ident) s)"
  proof -
    from that have "\<not> includes_newline name" "\<not> includes_newline ident"
      by (simp_all add: emitEvent_throws_iff is_String_def String_has_newline_def)
    then show ?thesis by (rule event_frame_lines)
  qed
  with emitEvent_throws_iff [of site h n d i s] emitEvent_throws_body [of site h n d i s]
    emitEvent_returns [of site h name d ident s]
  show ?thesis by blast
qed

lemma string_of_int_1: "string_of_int 1 = ''1''"
  by code_simp

lemma string_of_int_3000: "string_of_int 3000 = ''3000''"
  by code_simp

lemma data_text_1: "data_text (Number 1) = ''1''"
  by (simp add: data_text_def JSON_stringify_def string_of_int_1)

lemma close_ended: "writableEnded (res (close site s))"
  by (simp add: close_def writer_end_def writer_frame res_end_def res_implicitHeader_def Let_def)

lemma frame_without_retry:
  "event_frame None ''tick'' ''1'' ''7''
     = ''event: tick'' @ [newline] @ ''data: 1'' @ [newline] @ ''id: 7'' @ [newline, newline]"
  by (simp add: event_frame_def event_fields_def truthy_string_def List.map_filter_simps)

lemma frame_retry_0: "event_frame (Some 0) name t ident = event_frame None name t ident"
  by (simp add: event_frame_def event_fields_def)

lemma frame_retry_nonzero:
  "r \<noteq> 0 \<Longrightarrow>
   event_frame (Some r) name t ident
     = join [newline]
         (List.map_filter id (event_fields None name t ident) @ [''retry: '' @ string_of_int r])
       @ [newline, newline]"
  by (simp add: event_frame_def event_fields_def List.map_filter_simps)

theorem C6_emitEvent_witness:
  "\<not> throws (emitEvent ''handler'' \<lparr>retryMilliseconds = None\<rparr> (String ''tick'') (Number 1) (String ''7'')
       (state_after (sendSSE ''handler'' None (example_streamer ''GET'' Map.empty))))
   \<and> wireBody (res (state_after
        (emitEvent ''handler'' \<lparr>retryMilliseconds = None\<rparr> (String ''tick'') (Number 1) (String ''7'')
          (state_after (sendSSE ''handler'' None (example_streamer ''GET'' Map.empty))))))
      = wireBody (res (state_after (sendSSE ''handler'' None (example_streamer ''GET'' Map.empty))))
        @ [(''event: tick'' @ [newline] @ ''data: 1'' @ [newline] @ ''id: 7'' @ [newline, newline], utf8)]
   \<and> throws (emitEvent ''handler'' \<lparr>retryMilliseconds = None\<rparr>
        (String (''a'' @ [newline] @ ''b'')) (Number 1) (String ''7'')
        (state_after (sendSSE ''handler'' None (example_streamer ''GET'' Map.empty))))
   \<and> throws (emitEvent ''handler'' \<lparr>retryMilliseconds = None\<rparr> (String ''tick'') (Number 1) (Number 7)
        (state_after (sendSSE ''handler'' None (example_streamer ''GET'' Map.empty))))
   \<and> throws (emitEvent ''handler'' \<lparr>retryMilliseconds = None\<rparr> (String ''tick'') (Number 1) (String ''7'')
        (close ''handler''
          (state_after (sendSSE ''handler'' None (example_streamer ''GET'' Map.empty)))))"
proof -
  let ?S = "state_after (sendSSE ''handler'' None (example_streamer ''GET'' Map.empty))"
  let ?h = "\<lparr>retryMilliseconds = None\<rparr>"
  from sendSSE_unsent [of "example_streamer ''GET'' Map.empty" None "''handler''"]
  have o: "\<not> writableEnded (res ?S)" by (auto simp: example_streamer_unsent)
  have js: "JSON_stringify (Number 1) \<noteq> JSON_throws" by (simp add: JSON_stringify_def)
  have str: "is_String (String t)" "String_has_newline (String t) = includes_newline t"
    "\<not> is_String (Number k)" for t k
    by (simp_all add: is_String_def String_has_newline_def)
  have nl: "\<not> includes_newline ''tick''" "\<not> includes_newline ''7''"
    "includes_newline (''a'' @ [newline] @ ''b'')"
    by (simp_all add: includes_newline_def newline_def)
  note t = C6_emitEvent [where site = "''handler''" and h = ?h and d = "Number 1"]
  have A: "\<not> throws (emitEvent ''handler'' ?h (String ''tick'') (Number 1) (String ''7'') ?S)"
    using t [where n = "String ''tick''" and i = "String ''7''" and s = ?S
        and name = "''tick''" and ident = "''7''"] o js
    by (simp add: str nl)
  have B: "wireBody (res (state_after
        (emitEvent ''handler'' ?h (String ''tick'') (Number 1) (String ''7'') ?S)))
      = wireBody (res ?S)
        @ [(''event: tick'' @ [newline] @ ''data: 1'' @ [newline] @ ''id: 7'' @ [newline, newline], utf8)]"
    using t [where n = "String ''tick''" and i = "String ''7''" and s = ?S
        and name = "''tick''" and ident = "''7''"] A
    by (simp add: data_text_1 frame_without_retry)
  have C: "throws (emitEvent ''handler'' ?h (String (''a'' @ [newline] @ ''b'')) (Number 1) (String ''7'') ?S)"
    using t [where n = "String (''a'' @ [newline] @ ''b'')" and i = "String ''7''" and s = ?S
        and name = "''tick''" and ident = "''7''"]
    by (simp add: str includes_newline_def)
  have D: "throws (emitEvent ''handler'' ?h (String ''tick'') (Number 1) (Number 7) ?S)"
    using t [where n = "String ''tick''" and i = "Number 7" and s = ?S
        and name = "''tick''" and ident = "''7''"]
    by (simp add: str nl)
  have E: "throws (emitEvent ''handler'' ?h (String ''tick'') (Number 1) (String ''7'') (close ''handler'' ?S))"
    using t [where n = "String ''tick''" and i = "String ''7''" and s = "close ''handler'' ?S"
        and name = "''tick''" and ident = "''7''"]
    by (simp add: close_ended)
  from A B C D E show ?thesis by blast
qed

text \<open>
  C5 on the code, at a retry value of 0: \<open>sendSSE\<close> accepts it, and the frame of an
  event then has no retry field; with a retry value of 3000 the field is there.
\<close>

theorem C5_retry_zero_omitted:
  "(case sendSSE ''handler'' (Some 0) (example_streamer ''GET'' Map.empty) of
      Throws e s \<Rightarrow> False
    | Returns h s \<Rightarrow>
        last (wireBody (res (state_after
          (emitEvent ''handler'' h (String ''tick'') (Number 1) (String ''7'') s))))
        = (''event: tick'' @ [newline] @ ''data: 1'' @ [newline] @ ''id: 7'' @ [newline, newline], utf8))
   \<and> (case sendSSE ''handler'' (Some 3000) (example_streamer ''GET'' Map.empty) of
      Throws e s \<Rightarrow> False
    | Returns h s \<Rightarrow>
        last (wireBody (res (state_after
          (emitEvent ''handler'' h (String ''tick'') (Number 1) (String ''7'') s))))
        = (''event: tick'' @ [newline] @ ''data: 1'' @ [newline] @ ''id: 7'' @ [newline]
            @ ''retry: 3000'' @ [newline, newline], utf8))"
proof -
  have js: "JSON_stringify (Number 1) \<noteq> JSON_throws" by (simp add: JSON_stringify_def)
  have nl: "\<not> includes_newline ''tick''" "\<not> includes_newline ''7''"
    by (simp_all add: includes_newline_def newline_def)
  have emit: "last (wireBody (res (state_after
          (emitEvent ''handler'' \<lparr>retryMilliseconds = r\<rparr> (String ''tick'') (Number 1) (String ''7'') s))))
        = (event_frame r ''tick'' ''1'' ''7'', utf8)" if "\<not> writableEnded (res s)" for r and s :: "unit Streamer"
  proof -
    have "\<not> throws (emitEvent ''handler'' \<lparr>retryMilliseconds = r\<rparr> (String ''tick'') (Number 1) (String ''7'') s)"
      using that js nl by (simp add: emitEvent_throws_iff is_String_def String_has_newline_def)
    from emitEvent_returns [OF this] show ?thesis by (simp add: data_text_1)
  qed
  from sendSSE_unsent [of "example_streamer ''GET'' Map.empty" "Some 0" "''handler''"]
  obtain s0 where s0: "sendSSE ''handler'' (Some 0) (example_streamer ''GET'' Map.empty)
      = Returns \<lparr>retryMilliseconds = Some 0\<rparr> s0" "\<not> writableEnded (res s0)"
    by (auto simp: example_streamer_unsent)
  from sendSSE_unsent [of "example_streamer ''GET'' Map.empty" "Some 3000" "''handler''"]
  obtain s1 where s1: "sendSSE ''handler'' (Some 3000) (example_streamer ''GET'' Map.empty)
      = Returns \<lparr>retryMilliseconds = Some 3000\<rparr> s1" "\<not> writableEnded (res s1)"
    by (auto simp: example_streamer_unsent)
  have f0: "event_frame (Some 0) ''tick'' ''1'' ''7''
      = ''event: tick'' @ [newline] @ ''data: 1'' @ [newline] @ ''id: 7'' @ [newline, newline]"
    by (simp add: frame_retry_0 frame_without_retry)
  have f1: "event_frame (Some 3000) ''tick'' ''1'' ''7''
      = ''event: tick'' @ [newline] @ ''data: 1'' @ [newline] @ ''id: 7'' @ [newline]
            @ ''retry: 3000'' @ [newline, newline]"
    by (simp add: frame_retry_nonzero event_fields_def truthy_string_def List.map_filter_simps
        string_of_int_3000)
  show ?thesis
    by (simp add: s0 s1 emit f0 f1)
qed

subsection \<open>Cookies\<close>

lemma appendHeader_unsent:
  assumes "\<not> headersSent (res s)"
  shows "appendHeader name v s =
           Returns () (s\<lparr>res := (res s)\<lparr>outHeaders :=
              AList.update (toLowerCase name) (appended (res_getHeader name (res s)) v)
                (outHeaders (res s))\<rparr>\<rparr>)"
proof -
  have new: "(if truthy_hval (res_getHeader name (res s))
              then case res_getHeader name (res s) of None \<Rightarrow> HString v
                   | Some (HArray vs) \<Rightarrow> HArray (vs @ [v])
                   | Some c \<Rightarrow> HArray [template_literal c, v]
              else HString v) = appended (res_getHeader name (res s)) v"
    by (simp add: truthy_hval_def appended_def split: option.splits hval.splits)
  have ne: "appended (res_getHeader name (res s)) v \<noteq> HUndefined"
    by (simp add: appended_def split: option.splits hval.splits)
  show ?thesis
    unfolding appendHeader_def Let_def new
    using assms ne by (simp add: res_setHeader_def)
qed

lemma append_when_prefix: "\<exists>a. append_when option truthy text (c @ b) = c @ a"
  by (cases option) (simp_all add: append_when_def)

lemma cookie_text_prefix:
  "\<exists>attributes. cookie_text name v options = name @ ''='' @ encodeURIComponent v @ attributes"
proof -
  let ?c = "name @ ''='' @ encodeURIComponent v"
  obtain a1 where 1: "append_when (domain options) truthy_string (\<lambda>d. ''; Domain='' @ d) (?c @ []) = ?c @ a1"
    using append_when_prefix by blast
  obtain a2 where 2: "append_when (path options) truthy_string (\<lambda>p. ''; Path='' @ p) (?c @ a1) = ?c @ a2"
    using append_when_prefix by blast
  obtain a3 where 3: "append_when (expires options) (\<lambda>e. True) (\<lambda>e. ''; Expires='' @ e) (?c @ a2) = ?c @ a3"
    using append_when_prefix by blast
  obtain a4 where 4: "append_when (maxAge options) (\<lambda>a. a \<noteq> 0) (\<lambda>a. ''; Max-Age='' @ string_of_int a) (?c @ a3) = ?c @ a4"
    using append_when_prefix by blast
  obtain a5 where 5: "append_when (secure options) (\<lambda>b. b) (\<lambda>b. ''; Secure'') (?c @ a4) = ?c @ a5"
    using append_when_prefix by blast
  obtain a6 where 6: "append_when (httpOnly options) (\<lambda>b. b) (\<lambda>b. ''; HttpOnly'') (?c @ a5) = ?c @ a6"
    using append_when_prefix by blast
  obtain a7 where 7: "append_when (sameSite options) (\<lambda>x. True) (\<lambda>x. ''; SameSite='' @ SameSite_text x) (?c @ a6) = ?c @ a7"
    using append_when_prefix by blast
  have "cookie_text name v options = ?c @ a7"
    unfolding cookie_text_def fold_simps id_apply o_apply
    using 1 2 3 4 5 6 7 by (simp only: append_Nil2 append_assoc)
  then show ?thesis by (simp only: append_assoc) blast
qed

text \<open>
  C10. \<open>setCookie\<close>, on a response that has not sent its headers, appends to the
  \<open>Set-Cookie\<close> header a text that starts with the name, \<open>=\<close> and the value encoded by
  \<open>encodeURIComponent\<close>. An attribute whose option is falsy is left out as if the option
  were not given: an empty domain or path, a \<open>maxAge\<close> of 0, a false \<open>secure\<close> or
  \<open>httpOnly\<close>. In particular a \<open>maxAge\<close> of 0 gives the text that no \<open>maxAge\<close> gives,
  with no \<open>Max-Age\<close> attribute.
\<close>

theorem C10_setCookie:
  "(\<not> headersSent (res s) \<longrightarrow>
      (\<exists>s'. setCookie name v options s = Returns () s'
         \<and> res_getHeader ''Set-Cookie'' (res s')
             = Some (appended (res_getHeader ''Set-Cookie'' (res s)) (cookie_text name v options))
         \<and> wireHeads (res s') = wireHeads (res s) \<and> wireBody (res s') = wireBody (res s)))
   \<and> startsWith (cookie_text name v options) (name @ ''='' @ encodeURIComponent v)
   \<and> cookie_text name v no_options = name @ ''='' @ encodeURIComponent v
   \<and> (maxAge options = Some 0 \<longrightarrow>
        cookie_text name v options = cookie_text name v (options\<lparr>maxAge := None\<rparr>))
   \<and> (domain options = Some [] \<longrightarrow>
        cookie_text name v options = cookie_text name v (options\<lparr>domain := None\<rparr>))
   \<and> (path options = Some [] \<longrightarrow>
        cookie_text name v options = cookie_text name v (options\<lparr>path := None\<rparr>))
   \<and> (secure options = Some False \<longrightarrow>
        cookie_text name v options = cookie_text name v (options\<lparr>secure := None\<rparr>))
   \<and> (httpOnly options = Some False \<longrightarrow>
        cookie_text name v options = cookie_text name v (options\<lparr>httpOnly := None\<rparr>))
   \<and> (\<forall>a. a \<noteq> 0 \<longrightarrow>
        cookie_text name v (no_options\<lparr>maxAge := Some a\<rparr>)
          = name @ ''='' @ encodeURIComponent v @ ''; Max-Age='' @ string_of_int a)"
proof -
  have A: "\<exists>s'. setCookie name v options s = Returns () s'
         \<and> res_getHeader ''Set-Cookie'' (res s')
             = Some (appended (res_getHeader ''Set-Cookie'' (res s)) (cookie_text name v options))
         \<and> wireHeads (res s') = wireHeads (res s) \<and> wireBody (res s') = wireBody (res s)"
    if "\<not> headersSent (res s)"
    unfolding setCookie_def appendHeader_unsent [OF that]
    by (simp add: res_getHeader_def update_conv')
  have B: "startsWith (cookie_text name v options) (name @ ''='' @ encodeURIComponent v)"
    using cookie_text_prefix [of name v options] by (auto simp: startsWith_def)
  have C: "cookie_text name v no_options = name @ ''='' @ encodeURIComponent v"
    by (simp add: cookie_text_def no_options_def append_when_def)
  have D: "maxAge options = Some 0 \<longrightarrow>
        cookie_text name v options = cookie_text name v (options\<lparr>maxAge := None\<rparr>)"
    "domain options = Some [] \<longrightarrow>
        cookie_text name v options = cookie_text name v (options\<lparr>domain := None\<rparr>)"
    "path options = Some [] \<longrightarrow>
        cookie_text name v options = cookie_text name v (options\<lparr>path := None\<rparr>)"
    "secure options = Some False \<longrightarrow>
        cookie_text name v options = cookie_text name v (options\<lparr>secure := None\<rparr>)"
    "httpOnly options = Some False \<longrightarrow>
        cookie_text name v options = cookie_text name v (options\<lparr>httpOnly := None\<rparr>)"
    by (simp_all add: cookie_text_def truthy_string_def append_when_def)
  have E: "\<forall>a. a \<noteq> 0 \<longrightarrow>
        cookie_text name v (no_options\<lparr>maxAge := Some a\<rparr>)
          = name @ ''='' @ encodeURIComponent v @ ''; Max-Age='' @ string_of_int a"
    by (simp add: cookie_text_def no_options_def append_when_def)
  from A B C D E show ?thesis by blast
qed

lemma encode_session_value: "encodeURIComponent ''a b;c'' = ''a%20b%3Bc''"
  by code_simp

lemma string_of_int_60: "string_of_int 60 = ''60''"
  by code_simp

theorem C10_setCookie_witness:
  "(\<exists>s'. setCookie ''session'' ''a b;c'' (no_options\<lparr>maxAge := Some 0, path := Some ''/''\<rparr>)
            (example_streamer ''GET'' Map.empty) = Returns () s'
      \<and> res_getHeader ''Set-Cookie'' (res s') = Some (HString ''session=a%20b%3Bc; Path=/''))
   \<and> cookie_text ''session'' ''a b;c'' (no_options\<lparr>maxAge := Some 0\<rparr>) = ''session=a%20b%3Bc''
   \<and> cookie_text ''session'' ''a b;c'' (no_options\<lparr>maxAge := Some 60\<rparr>)
       = ''session=a%20b%3Bc; Max-Age=60''"
proof -
  let ?o = "no_options\<lparr>maxAge := Some 0, path := Some ''/''\<rparr>"
  let ?s = "example_streamer ''GET'' Map.empty"
  have t: "cookie_text ''session'' ''a b;c'' ?o = ''session=a%20b%3Bc; Path=/''"
    by (simp add: cookie_text_def no_options_def truthy_string_def append_when_def
        encode_session_value)
  have g: "res_getHeader ''Set-Cookie'' (res ?s) = None"
    by (simp add: res_getHeader_def example_streamer_unsent)
  have A: "\<exists>s'. setCookie ''session'' ''a b;c'' ?o ?s = Returns () s'
      \<and> res_getHeader ''Set-Cookie'' (res s') = Some (HString ''session=a%20b%3Bc; Path=/'')"
  proof -
    have u: "\<not> headersSent (res ?s)" by (simp add: example_streamer_unsent)
    from C10_setCookie [of ?s "''session''" "''a b;c''" ?o] u
    have "\<exists>s'. setCookie ''session'' ''a b;c'' ?o ?s = Returns () s'
         \<and> res_getHeader ''Set-Cookie'' (res s')
             = Some (appended (res_getHeader ''Set-Cookie'' (res ?s)) (cookie_text ''session'' ''a b;c'' ?o))"
      by blast
    then show ?thesis by (simp add: g appended_def t)
  qed
  have B: "cookie_text ''session'' ''a b;c'' (no_options\<lparr>maxAge := Some 0\<rparr>) = ''session=a%20b%3Bc''"
  proof -
    from C10_setCookie [of ?s "''session''" "''a b;c''" "no_options\<lparr>maxAge := Some 0\<rparr>"]
    have "maxAge (no_options\<lparr>maxAge := Some 0\<rparr>) = Some 0 \<longrightarrow>
        cookie_text ''session'' ''a b;c'' (no_options\<lparr>maxAge := Some 0\<rparr>)
          = cookie_text ''session'' ''a b;c'' (no_options\<lparr>maxAge := Some 0, maxAge := None\<rparr>)"
      and "cookie_text ''session'' ''a b;c'' no_options = ''session'' @ ''='' @ encodeURIComponent ''a b;c''"
      by blast+
    then show ?thesis by (simp add: no_options_def encode_session_value)
  qed
  have C: "cookie_text ''session'' ''a b;c'' (no_options\<lparr>maxAge := Some 60\<rparr>)
       = ''session=a%20b%3Bc; Max-Age=60''"
  proof -
    from C10_setCookie [of ?s "''session''" "''a b;c''" no_options]
    have "\<forall>a. a \<noteq> 0 \<longrightarrow>
        cookie_text ''session'' ''a b;c'' (no_options\<lparr>maxAge := Some a\<rparr>)
          = ''session'' @ ''='' @ encodeURIComponent ''a b;c'' @ ''; Max-Age='' @ string_of_int a"
      by blast
    then have "cookie_text ''session'' ''a b;c'' (no_options\<lparr>maxAge := Some 60\<rparr>)
          = ''session'' @ ''='' @ encodeURIComponent ''a b;c'' @ ''; Max-Age='' @ string_of_int 60"
      by simp
    then show ?thesis by (simp add: encode_session_value string_of_int_60)
  qed
  from A B C show ?thesis by blast
qed

end
